theory Spec2Isabelle
  imports Complex_Main "HOL-Library.Char_ord" "HOL-Library.List_Lexorder"
    "HOL-Library.Product_Lexorder" "HOL-Library.Multiset"
begin

section \<open>Data model\<close>

text \<open>
  The programs work on pandas data frames read from CSV files with
  \<^verbatim>\<open>pd.read_csv\<close> and its default options. A field of a CSV column that is meant
  to hold numbers is a number, empty (NaN), or other text, which is not a number.
  Floating-point numbers are idealised as real numbers: no rounding, no overflow, no
  infinities in the input. The rounding of float64 is made explicit in a second model
  of the difficulty analysis only.
\<close>

datatype cell = Num real | NaN | Str string

text \<open>
  \<^verbatim>\<open>pd.read_csv\<close> reads a field that is one of its default missing-value strings
  as a missing value, like an empty field (the first entry of the list is the empty
  string).
\<close>

definition na_values :: "string list" where
  "na_values =
     [[], ''#N/A'', ''#N/A N/A'', ''#NA'', ''-1.#IND'', ''-1.#QNAN'', ''-NaN'', ''-nan'',
      ''1.#IND'', ''1.#QNAN'', ''<NA>'', ''N/A'', ''NA'', ''NULL'', ''NaN'', ''None'',
      ''n/a'', ''nan'', ''null'']"

text \<open>
  One row of the frame. The field types follow \<^verbatim>\<open>class StudentData\<close> of
  \<^verbatim>\<open>app/main.py\<close> (student_id: int, course_id: str, chapter_id: int,
  time_spent: float, score: float); \<open>None\<close> is a missing cell. Only
  \<open>time_spent\<close> and \<open>score\<close> may hold unparsed text. \<open>completed\<close> is the
  target column of the training file.
\<close>

record event =
  student_id :: "int option"
  course_id :: "string option"
  chapter_id :: "int option"
  time_spent :: cell
  score :: cell
  completed :: "int option"

text \<open>
  A frame is its header and its rows. A field of a row whose column name is not in the
  header is never read: the column is absent. A column is numeric when none of its
  cells is text other than a missing-value string (also when the frame has no row).
\<close>

record frame =
  columns :: "string list"
  rows :: "event list"

datatype py_error = KeyError "string list" | TypeError | ValueError | IndexError

datatype http_error = HTTPException nat

section \<open>Group-wise reductions\<close>

text \<open>
  The reductions that \<^verbatim>\<open>groupby(...).agg(...)\<close> is asked for, as pandas documents
  them: each skips missing values; \<open>mean\<close>, \<open>min\<close>, \<open>max\<close> and \<open>first\<close> of no
  value are NaN, \<open>sum\<close> of no value is 0, and \<open>std\<close> is the sample standard
  deviation (\<open>ddof = 1\<close>), NaN for fewer than two values.
\<close>

datatype aggfunc = AggMean | AggMin | AggMax | AggStd | AggSum | AggFirst

fun func_name :: "aggfunc \<Rightarrow> string" where
  "func_name AggMean = ''mean''"
| "func_name AggMin = ''min''"
| "func_name AggMax = ''max''"
| "func_name AggStd = ''std''"
| "func_name AggSum = ''sum''"
| "func_name AggFirst = ''first''"

definition present :: "cell list \<Rightarrow> real list" where
  "present cs = List.map_filter (\<lambda>c. case c of Num x \<Rightarrow> Some x | _ \<Rightarrow> None) cs"

text \<open>
  A column holds text (pandas gives it the dtype \<open>object\<close>) when one of its fields is
  text that is not read as a missing value.
\<close>

definition is_object :: "cell list \<Rightarrow> bool" where
  "is_object cs = list_ex (\<lambda>c. case c of Str s \<Rightarrow> s \<notin> set na_values | _ \<Rightarrow> False) cs"

definition mean :: "real list \<Rightarrow> real" where
  "mean xs = sum_list xs / real (length xs)"

fun reduce :: "aggfunc \<Rightarrow> real list \<Rightarrow> real option" where
  "reduce AggMean xs = (if xs = [] then None else Some (mean xs))"
| "reduce AggMin xs = (case xs of [] \<Rightarrow> None | x # r \<Rightarrow> Some (fold min r x))"
| "reduce AggMax xs = (case xs of [] \<Rightarrow> None | x # r \<Rightarrow> Some (fold max r x))"
| "reduce AggStd xs =
     (if length xs \<le> 1 then None
      else Some (sqrt (sum_list (map (\<lambda>x. (x - mean xs)\<^sup>2) xs) / real (length xs - 1))))"
| "reduce AggSum xs = Some (sum_list xs)"
| "reduce AggFirst xs = (case xs of [] \<Rightarrow> None | x # _ \<Rightarrow> Some x)"

section \<open>Frames, grouping and aggregation\<close>

definition opt_cell :: "int option \<Rightarrow> cell" where
  "opt_cell v = (case v of None \<Rightarrow> NaN | Some n \<Rightarrow> Num (of_int n))"

text \<open>The cell of a row under a column name; a column the rows do not carry is empty.\<close>

definition column_cell :: "string \<Rightarrow> event \<Rightarrow> cell" where
  "column_cell name e =
     (if name = ''student_id'' then opt_cell (student_id e)
      else if name = ''course_id'' then (case course_id e of None \<Rightarrow> NaN | Some s \<Rightarrow> Str s)
      else if name = ''chapter_id'' then opt_cell (chapter_id e)
      else if name = ''time_spent'' then time_spent e
      else if name = ''score'' then score e
      else if name = ''completed'' then opt_cell (completed e)
      else NaN)"

text \<open>
  An aggregated table: column labels, the index (one group key per row) and the rows of
  values.
\<close>

record ('k, 'c, 'a) table =
  tcolumns :: "'c list"
  tindex :: "'k list"
  tvalues :: "'a list list"

text \<open>
  \<^verbatim>\<open>df.groupby(keys)\<close>: the group keys are the distinct keys of the rows in ascending
  order (\<open>sort=True\<close>), a row with a missing key cell belongs to no group
  (\<open>dropna=True\<close>), and a group keeps its rows in the order of the frame. The key of a
  row is given by a function, \<open>None\<close> when a key cell is missing.
\<close>

definition group_keys :: "(event \<Rightarrow> 'k::linorder option) \<Rightarrow> event list \<Rightarrow> 'k list" where
  "group_keys key evs = sort (remdups (List.map_filter key evs))"

definition group_rows :: "(event \<Rightarrow> 'k option) \<Rightarrow> 'k \<Rightarrow> event list \<Rightarrow> event list" where
  "group_rows key k evs = filter (\<lambda>e. key e = Some k) evs"

type_synonym aggspec = "(string \<times> aggfunc list) list"

definition agg_labels :: "aggspec \<Rightarrow> (string \<times> aggfunc) list" where
  "agg_labels spec = concat (map (\<lambda>(c, fs). map (\<lambda>f. (c, f)) fs) spec)"

text \<open>
  \<^verbatim>\<open>df.groupby(keys).agg({column: [functions], ...})\<close>. pandas raises
  KeyError when a grouping column or an aggregated column is not in the frame (for the
  aggregated columns it names the absent ones in sorted order), and
  TypeError when \<open>mean\<close> or \<open>std\<close> is asked of a column that holds text. The other
  reductions of a text column are not numbers and are not modelled: the model raises
  TypeError for them too (in both aggregations of the source the two columns that can
  hold text are aggregated with \<open>mean\<close>, so the call raises in either reading). The
  result has one row per group key and one column per (column, function) pair, in the
  order of the dictionary.
\<close>

definition groupby_agg ::
    "string list \<Rightarrow> (event \<Rightarrow> 'k::linorder option) \<Rightarrow> frame \<Rightarrow> aggspec \<Rightarrow>
       py_error + ('k, string \<times> string, real option) table" where
  "groupby_agg key_columns key df spec =
     (case filter (\<lambda>c. c \<notin> set (columns df)) key_columns of
        c # _ \<Rightarrow> Inl (KeyError [c])
      | [] \<Rightarrow>
          if filter (\<lambda>c. c \<notin> set (columns df)) (map fst spec) \<noteq> []
            then Inl (KeyError (sort (filter (\<lambda>c. c \<notin> set (columns df)) (map fst spec))))
          else if list_ex (\<lambda>c. is_object (map (column_cell c) (rows df))) (map fst spec)
            then Inl TypeError
          else Inr \<lparr>tcolumns = map (\<lambda>(c, f). (c, func_name f)) (agg_labels spec),
                    tindex = group_keys key (rows df),
                    tvalues = map (\<lambda>k. map (\<lambda>(c, f).
                                  reduce f (present (map (column_cell c)
                                    (group_rows key k (rows df)))))
                                (agg_labels spec))
                              (group_keys key (rows df))\<rparr>)"

text \<open>\<^verbatim>\<open>['_'.join(col).strip() for col in student_features.columns.values]\<close>\<close>

definition isspace :: "char \<Rightarrow> bool" where
  "isspace c = (c \<in> set [CHR '' '', CHR 0x09, CHR 0x0A, CHR 0x0B, CHR 0x0C, CHR 0x0D])"

definition strip :: "string \<Rightarrow> string" where
  "strip s = rev (dropWhile isspace (rev (dropWhile isspace s)))"

definition join_label :: "string \<times> string \<Rightarrow> string" where
  "join_label col = strip (fst col @ ''_'' @ snd col)"

definition flatten_columns :: "('k, string \<times> string, 'a) table \<Rightarrow> ('k, string, 'a) table" where
  "flatten_columns t =
     \<lparr>tcolumns = map join_label (tcolumns t), tindex = tindex t, tvalues = tvalues t\<rparr>"

text \<open>\<^verbatim>\<open>student_features.rename(columns={old: new}, inplace=True)\<close>\<close>

definition rename_column ::
    "string \<Rightarrow> string \<Rightarrow> ('k, string, 'a) table \<Rightarrow> ('k, string, 'a) table" where
  "rename_column old new t =
     \<lparr>tcolumns = map (\<lambda>c. if c = old then new else c) (tcolumns t),
      tindex = tindex t, tvalues = tvalues t\<rparr>"

text \<open>\<^verbatim>\<open>student_features.fillna(0, inplace=True)\<close>\<close>

definition fillna :: "real \<Rightarrow> ('k, 'c, real option) table \<Rightarrow> ('k, 'c, real) table" where
  "fillna v t =
     \<lparr>tcolumns = tcolumns t, tindex = tindex t,
      tvalues = map (map (\<lambda>x. case x of None \<Rightarrow> v | Some y \<Rightarrow> y)) (tvalues t)\<rparr>"

text \<open>
  \<^verbatim>\<open>student_features.drop(columns=[name])\<close>: KeyError when no column has the label.
\<close>

definition drop_column ::
    "string \<Rightarrow> ('k, string, 'a) table \<Rightarrow> py_error + ('k, string, 'a) table" where
  "drop_column name t =
     (if name \<notin> set (tcolumns t) then Inl (KeyError [name])
      else Inr \<lparr>tcolumns = filter (\<lambda>c. c \<noteq> name) (tcolumns t), tindex = tindex t,
                tvalues = map (\<lambda>r. map snd (filter (\<lambda>(c, x). c \<noteq> name) (zip (tcolumns t) r)))
                            (tvalues t)\<rparr>)"

section \<open>Feature aggregation at inference time: \<^verbatim>\<open>preprocess_student_data\<close>\<close>

text \<open>
  \<^verbatim>\<open>
  def preprocess_student_data(df):
      student_features = df.groupby('student_id').agg({
          'score': ['mean', 'min', 'max', 'std'],
          'time_spent': ['sum', 'mean', 'std'],
          'chapter_id': 'max'
      })
      student_features.columns = ['_'.join(col).strip() for col in student_features.columns.values]
      student_features.fillna(0, inplace=True)
      return student_features
  \<close>
\<close>

definition inference_spec :: aggspec where
  "inference_spec =
     [(''score'', [AggMean, AggMin, AggMax, AggStd]),
      (''time_spent'', [AggSum, AggMean, AggStd]),
      (''chapter_id'', [AggMax])]"

definition preprocess_student_data :: "frame \<Rightarrow> py_error + (int, string, real) table" where
  "preprocess_student_data df =
     (case groupby_agg [''student_id''] student_id df inference_spec of
        Inl e \<Rightarrow> Inl e
      | Inr student_features \<Rightarrow> Inr (fillna 0 (flatten_columns student_features)))"

section \<open>Feature aggregation at training time: \<^verbatim>\<open>train_models\<close>\<close>

text \<open>
  The feature engineering of the script, up to the feature matrix \<open>X\<close>; the random
  split and the training of the classifier are not modelled.
  \<^verbatim>\<open>
      student_features = df.groupby('student_id').agg({
          'score': ['mean', 'min', 'max', 'std'],
          'time_spent': ['sum', 'mean', 'std'],
          'chapter_id': 'max',
          'completed': 'first' # Target
      })
      student_features.columns = ['_'.join(col).strip() for col in student_features.columns.values]
      student_features.rename(columns={'completed_first': 'completed'}, inplace=True)
      student_features.fillna(0, inplace=True)
      X = student_features.drop(columns=['completed'])
  \<close>
\<close>

definition training_spec :: aggspec where
  "training_spec =
     [(''score'', [AggMean, AggMin, AggMax, AggStd]),
      (''time_spent'', [AggSum, AggMean, AggStd]),
      (''chapter_id'', [AggMax]),
      (''completed'', [AggFirst])]"

definition train_models_features :: "frame \<Rightarrow> py_error + (int, string, real) table" where
  "train_models_features df =
     (case groupby_agg [''student_id''] student_id df training_spec of
        Inl e \<Rightarrow> Inl e
      | Inr student_features \<Rightarrow>
          Inr (fillna 0 (rename_column ''completed_first'' ''completed''
                 (flatten_columns student_features))))"

definition train_models_X :: "frame \<Rightarrow> py_error + (int, string, real) table" where
  "train_models_X df =
     (case train_models_features df of
        Inl e \<Rightarrow> Inl e
      | Inr student_features \<Rightarrow> drop_column ''completed'' student_features)"

section \<open>Risk logic of \<^verbatim>\<open>predict_completion\<close>\<close>

text \<open>
  \<^verbatim>\<open>
    risk_level = "Low"
    if prob < 0.3:
        risk_level = "High"
    elif prob < 0.7:
        risk_level = "Medium"
  \<close>
\<close>

definition risk_level :: "real \<Rightarrow> string" where
  "risk_level prob =
     (if prob < 0.3 then ''High'' else if prob < 0.7 then ''Medium'' else ''Low'')"

section \<open>The scaler\<close>

text \<open>
  \<^verbatim>\<open>scaler = StandardScaler(); X_train_scaled = scaler.fit_transform(X_train)\<close> in
  \<^verbatim>\<open>train_models\<close>, and \<^verbatim>\<open>X_scaled = scaler.transform(features)\<close> in
  \<^verbatim>\<open>predict_completion\<close>. The class is scikit-learn's: \<open>fit\<close> stores, per column,
  the mean and the population standard deviation of the training matrix, and a standard
  deviation of zero is stored as the scale 1; \<open>transform\<close> computes
  \<open>(x - mean) / scale\<close>. Both refuse a matrix with no row, and \<open>transform\<close> refuses
  a matrix whose width is not that of the training matrix.
\<close>

record scaler =
  scaler_mean :: "real list"
  scaler_scale :: "real list"

definition population_std :: "real list \<Rightarrow> real" where
  "population_std xs = sqrt (sum_list (map (\<lambda>x. (x - mean xs)\<^sup>2) xs) / real (length xs))"

definition handle_zeros_in_scale :: "real \<Rightarrow> real" where
  "handle_zeros_in_scale s = (if s = 0 then 1 else s)"

definition fit :: "real list list \<Rightarrow> py_error + scaler" where
  "fit X =
     (case X of
        [] \<Rightarrow> Inl ValueError
      | r # _ \<Rightarrow>
          if r = [] \<or> list_ex (\<lambda>r'. length r' \<noteq> length r) X then Inl ValueError
          else Inr \<lparr>scaler_mean = map mean (transpose X),
                    scaler_scale = map (\<lambda>c. handle_zeros_in_scale (population_std c))
                                     (transpose X)\<rparr>)"

definition transform :: "scaler \<Rightarrow> real list list \<Rightarrow> py_error + real list list" where
  "transform sc X =
     (if X = [] \<or> list_ex (\<lambda>r. length r \<noteq> length (scaler_mean sc)) X then Inl ValueError
      else Inr (map (\<lambda>r. map (\<lambda>(x, m, s). (x - m) / s)
                            (zip r (zip (scaler_mean sc) (scaler_scale sc)))) X))"

definition fit_transform :: "real list list \<Rightarrow> py_error + scaler \<times> real list list" where
  "fit_transform X =
     (case fit X of
        Inl e \<Rightarrow> Inl e
      | Inr sc \<Rightarrow> (case transform sc X of Inl e \<Rightarrow> Inl e | Inr Z \<Rightarrow> Inr (sc, Z)))"

section \<open>The endpoint \<^verbatim>\<open>/predict\<close>\<close>

text \<open>
  The classifier is a loaded artifact: \<open>predict\<close> gives one label per row of the scaled
  matrix and \<open>predict_proba\<close> one row of class probabilities per row. Its algorithm is
  not part of the program; the two functions are parameters.
\<close>

record classifier =
  predict :: "real list list \<Rightarrow> int list"
  predict_proba :: "real list list \<Rightarrow> real list list"

text \<open>
  The artifacts are loaded together at start-up; when loading fails, \<open>model\<close> and
  \<open>scaler\<close> are both \<open>None\<close>.
\<close>

record artifacts =
  model :: classifier
  loaded_scaler :: scaler

record prediction =
  res_student_id :: int
  completion_probability :: real
  predicted_completion :: bool
  res_risk_level :: string

text \<open>\<^verbatim>\<open>model.predict_proba(X_scaled)[:, 1]\<close>: IndexError when there is no column 1.\<close>

definition second_column :: "real list list \<Rightarrow> py_error + real list" where
  "second_column P =
     (if list_ex (\<lambda>r. length r < 2) P then Inl IndexError else Inr (map (\<lambda>r. r ! 1) P))"

text \<open>
  \<^verbatim>\<open>round(float(prob), 2)\<close>: to the nearest multiple of 0.01, a tie to the even one.
\<close>

definition py_round2 :: "real \<Rightarrow> real" where
  "py_round2 x =
     (let y = x * 100; f = \<lfloor>y\<rfloor>; d = y - of_int f
      in (if d < 1 / 2 then of_int f
          else if 1 / 2 < d then of_int (f + 1)
          else if even f then of_int f else of_int (f + 1)) / 100)"

text \<open>
  \<^verbatim>\<open>
        results = []
        for idx, (student_id, row) in enumerate(features.iterrows()):
            prob = probabilities[idx]
            pred = int(predictions[idx])
            risk_level = ...
            results.append({
                "student_id": int(student_id),
                "completion_probability": round(float(prob), 2),
                "predicted_completion": bool(pred),
                "risk_level": risk_level
            })
  \<close>
  An index past the end of \<open>probabilities\<close> or \<open>predictions\<close> raises IndexError.
\<close>

fun results_loop ::
    "nat \<Rightarrow> int list \<Rightarrow> real list \<Rightarrow> int list \<Rightarrow> prediction list \<Rightarrow>
       py_error + prediction list" where
  "results_loop idx [] probabilities predictions results = Inr results"
| "results_loop idx (sid # rest) probabilities predictions results =
     (if length probabilities \<le> idx \<or> length predictions \<le> idx then Inl IndexError
      else results_loop (Suc idx) rest probabilities predictions
             (results @
              [\<lparr>res_student_id = sid,
                completion_probability = py_round2 (probabilities ! idx),
                predicted_completion = (predictions ! idx \<noteq> 0),
                res_risk_level = risk_level (probabilities ! idx)\<rparr>]))"

text \<open>
  The body of the \<^verbatim>\<open>try\<close> block, from the parsed frame on (reading and parsing the
  upload are not modelled).
\<close>

definition predict_body :: "artifacts \<Rightarrow> frame \<Rightarrow> py_error + prediction list" where
  "predict_body a df =
     (case preprocess_student_data df of
        Inl e \<Rightarrow> Inl e
      | Inr features \<Rightarrow>
          (case transform (loaded_scaler a) (tvalues features) of
             Inl e \<Rightarrow> Inl e
           | Inr X_scaled \<Rightarrow>
               (case second_column (predict_proba (model a) X_scaled) of
                  Inl e \<Rightarrow> Inl e
                | Inr probabilities \<Rightarrow>
                    results_loop 0 (tindex features) probabilities
                      (predict (model a) X_scaled) [])))"

text \<open>
  \<^verbatim>\<open>if not model: raise HTTPException(status_code=500, ...)\<close>, and every exception of
  the body becomes \<^verbatim>\<open>HTTPException(status_code=400, ...)\<close>.
\<close>

definition predict_completion :: "artifacts option \<Rightarrow> frame \<Rightarrow> http_error + prediction list" where
  "predict_completion loaded df =
     (case loaded of
        None \<Rightarrow> Inl (HTTPException 500)
      | Some a \<Rightarrow>
          (case predict_body a df of
             Inl e \<Rightarrow> Inl (HTTPException 400)
           | Inr results \<Rightarrow> Inr results))"

section \<open>Difficulty analysis of \<^verbatim>\<open>train_models\<close>\<close>

text \<open>
  The difficulty score divides by a maximum that can be zero or missing, so its value is
  a float with the special values: a division of zero by zero is not a number, of
  another number by zero an infinity. On finite values the operations are exact; the
  sign of a zero is not modelled.
\<close>

datatype fval = Finite real | PosInf | NegInf | NotANumber

fun fneg :: "fval \<Rightarrow> fval" where
  "fneg (Finite a) = Finite (- a)"
| "fneg PosInf = NegInf"
| "fneg NegInf = PosInf"
| "fneg NotANumber = NotANumber"

fun fadd :: "fval \<Rightarrow> fval \<Rightarrow> fval" where
  "fadd NotANumber b = NotANumber"
| "fadd a NotANumber = NotANumber"
| "fadd (Finite a) (Finite b) = Finite (a + b)"
| "fadd PosInf NegInf = NotANumber"
| "fadd NegInf PosInf = NotANumber"
| "fadd PosInf b = PosInf"
| "fadd NegInf b = NegInf"
| "fadd (Finite a) b = b"

definition fsub :: "fval \<Rightarrow> fval \<Rightarrow> fval" where
  "fsub a b = fadd a (fneg b)"

fun fmul :: "fval \<Rightarrow> fval \<Rightarrow> fval" where
  "fmul NotANumber b = NotANumber"
| "fmul a NotANumber = NotANumber"
| "fmul (Finite a) (Finite b) = Finite (a * b)"
| "fmul (Finite a) b =
     (if a = 0 then NotANumber else if 0 < a then b else fneg b)"
| "fmul a (Finite b) =
     (if b = 0 then NotANumber else if 0 < b then a else fneg a)"
| "fmul PosInf b = b"
| "fmul NegInf b = fneg b"

fun fdiv :: "fval \<Rightarrow> fval \<Rightarrow> fval" where
  "fdiv NotANumber b = NotANumber"
| "fdiv a NotANumber = NotANumber"
| "fdiv (Finite a) (Finite b) =
     (if b \<noteq> 0 then Finite (a / b)
      else if a = 0 then NotANumber else if 0 < a then PosInf else NegInf)"
| "fdiv (Finite a) b = Finite 0"
| "fdiv a (Finite b) = (if 0 \<le> b then a else fneg a)"
| "fdiv a b = NotANumber"

definition fv :: "real option \<Rightarrow> fval" where
  "fv v = (case v of None \<Rightarrow> NotANumber | Some x \<Rightarrow> Finite x)"

text \<open>\<^verbatim>\<open>Series.max()\<close>: the largest value that is not missing, NaN when there is none.\<close>

definition series_max :: "real option list \<Rightarrow> real option" where
  "series_max vs = reduce AggMax (List.map_filter (\<lambda>v. v) vs)"

text \<open>
  \<^verbatim>\<open>
    difficulty_stats = df.groupby(['course_id', 'chapter_id']).agg({
        'score': 'mean',
        'time_spent': 'mean'
    }).reset_index()
    difficulty_stats['difficulty_score'] = (100 - difficulty_stats['score'])
        + (difficulty_stats['time_spent'] / difficulty_stats['time_spent'].max() * 50)
  \<close>
  A row of the aggregated table holds the mean score at position 0 and the mean time at
  position 1.
\<close>

record difficulty_stat =
  ds_course_id :: string
  ds_chapter_id :: int
  ds_score :: "real option"
  ds_time_spent :: "real option"
  difficulty_score :: fval

definition course_chapter :: "event \<Rightarrow> (string \<times> int) option" where
  "course_chapter e =
     (case course_id e of
        None \<Rightarrow> None
      | Some c \<Rightarrow> (case chapter_id e of None \<Rightarrow> None | Some h \<Rightarrow> Some (c, h)))"

definition difficulty_spec :: aggspec where
  "difficulty_spec = [(''score'', [AggMean]), (''time_spent'', [AggMean])]"

definition train_models_difficulty :: "frame \<Rightarrow> py_error + difficulty_stat list" where
  "train_models_difficulty df =
     (case groupby_agg [''course_id'', ''chapter_id''] course_chapter df difficulty_spec of
        Inl e \<Rightarrow> Inl e
      | Inr t \<Rightarrow>
          (let time_max = series_max (map (\<lambda>r. r ! 1) (tvalues t))
           in Inr (map (\<lambda>(k, r).
                     \<lparr>ds_course_id = fst k, ds_chapter_id = snd k,
                      ds_score = r ! 0, ds_time_spent = r ! 1,
                      difficulty_score =
                        fadd (fsub (Finite 100) (fv (r ! 0)))
                             (fmul (fdiv (fv (r ! 1)) (fv time_max)) (Finite 50))\<rparr>)
                   (zip (tindex t) (tvalues t)))))"

section \<open>Float arithmetic of the difficulty analysis\<close>

text \<open>
  The numbers of the program are float64. \<open>fl64\<close> is the rounding of a real number
  to the nearest float64, a tie to the even one: \<open>ulp_search\<close> finds the spacing
  \<open>u\<close> of the float64 numbers around \<open>\<bar>x\<bar>\<close> (the power of two with
  \<open>2 ^ 52 * u \<le> \<bar>x\<bar>\<close> and \<open>\<bar>x\<bar> < 2 ^ 53 * u\<close>), and \<open>x\<close> is rounded to a multiple
  of it. Overflow and subnormal numbers are not modelled.
\<close>

definition round_half_even :: "real \<Rightarrow> int" where
  "round_half_even y =
     (let f = \<lfloor>y\<rfloor>; d = y - of_int f
      in if d < 1 / 2 then f else if 1 / 2 < d then f + 1 else if even f then f else f + 1)"

fun ulp_search :: "nat \<Rightarrow> real \<Rightarrow> real \<Rightarrow> real" where
  "ulp_search 0 a u = u"
| "ulp_search (Suc n) a u =
     (if a < 2 ^ 52 * u then ulp_search n a (u / 2)
      else if 2 ^ 53 * u \<le> a then ulp_search n a (u * 2)
      else u)"

definition fl64 :: "real \<Rightarrow> real" where
  "fl64 x =
     (if x = 0 then 0
      else (let u = ulp_search 2200 \<bar>x\<bar> 1 in u * of_int (round_half_even (x / u))))"

text \<open>
  The mean of a group in float arithmetic, with the rounding \<open>rnd\<close> after every
  operation. pandas accumulates the sum of a group in the order of its rows, with Kahan
  compensation (\<open>group_mean\<close>), and divides it by the number of values.
  \<open>running_mean\<close> is the mean over the plain running sum, for comparison.
\<close>

fun kahan_loop :: "(real \<Rightarrow> real) \<Rightarrow> real list \<Rightarrow> real \<Rightarrow> real \<Rightarrow> real" where
  "kahan_loop rnd [] sumx compensation = sumx"
| "kahan_loop rnd (v # vs) sumx compensation =
     (let y = rnd (v - compensation); t = rnd (sumx + y)
      in kahan_loop rnd vs t (rnd (rnd (t - sumx) - y)))"

definition kahan_mean :: "(real \<Rightarrow> real) \<Rightarrow> real list \<Rightarrow> real option" where
  "kahan_mean rnd xs =
     (if xs = [] then None else Some (rnd (kahan_loop rnd xs 0 0 / real (length xs))))"

definition running_mean :: "(real \<Rightarrow> real) \<Rightarrow> real list \<Rightarrow> real option" where
  "running_mean rnd xs =
     (if xs = [] then None
      else Some (rnd (fold (\<lambda>v s. rnd (s + v)) xs 0 / real (length xs))))"

definition fround :: "(real \<Rightarrow> real) \<Rightarrow> fval \<Rightarrow> fval" where
  "fround rnd v = (case v of Finite x \<Rightarrow> Finite (rnd x) | _ \<Rightarrow> v)"

text \<open>
  The difficulty analysis of \<^verbatim>\<open>train_models\<close> once more, with the arithmetic as
  parameters: \<open>mean_of\<close> is the mean of the values of a group, given in the order of
  the rows, and \<open>rnd\<close> the rounding of a number read from the file and of the result
  of an operation. The aggregated table gives the outcome of the checks and the group
  keys. With the exact mean and no rounding this is \<open>train_models_difficulty\<close>.
\<close>

definition train_models_difficulty_with ::
    "(real list \<Rightarrow> real option) \<Rightarrow> (real \<Rightarrow> real) \<Rightarrow> frame \<Rightarrow>
       py_error + difficulty_stat list" where
  "train_models_difficulty_with mean_of rnd df =
     (case groupby_agg [''course_id'', ''chapter_id''] course_chapter df difficulty_spec of
        Inl e \<Rightarrow> Inl e
      | Inr t \<Rightarrow>
          (let avg = (\<lambda>col k. mean_of (map rnd (present (map col
                        (group_rows course_chapter k (rows df))))));
               time_max = series_max (map (avg time_spent) (tindex t))
           in Inr (map (\<lambda>k.
                     \<lparr>ds_course_id = fst k, ds_chapter_id = snd k,
                      ds_score = avg score k, ds_time_spent = avg time_spent k,
                      difficulty_score =
                        fround rnd
                          (fadd (fround rnd (fsub (Finite 100) (fv (avg score k))))
                             (fround rnd
                                (fmul (fround rnd (fdiv (fv (avg time_spent k)) (fv time_max)))
                                   (Finite 50))))\<rparr>)
                   (tindex t))))"

section \<open>Notions used to state the properties\<close>

text \<open>
  The feature vector of a set of events as the specification describes it: mean, minimum,
  maximum and standard deviation of the scores, sum, mean and standard deviation of the
  times, and the largest chapter, each over the values that are present and 0 where the
  statistic is undefined.
\<close>

definition fill0 :: "real option \<Rightarrow> real" where
  "fill0 v = (case v of None \<Rightarrow> 0 | Some x \<Rightarrow> x)"

definition feature_vector :: "event list \<Rightarrow> real list" where
  "feature_vector evs =
     [fill0 (reduce AggMean (present (map score evs))),
      fill0 (reduce AggMin (present (map score evs))),
      fill0 (reduce AggMax (present (map score evs))),
      fill0 (reduce AggStd (present (map score evs))),
      fill0 (reduce AggSum (present (map time_spent evs))),
      fill0 (reduce AggMean (present (map time_spent evs))),
      fill0 (reduce AggStd (present (map time_spent evs))),
      fill0 (reduce AggMax (present (map (\<lambda>e. opt_cell (chapter_id e)) evs)))]"

definition feature_names :: "string list" where
  "feature_names =
     [''score_mean'', ''score_min'', ''score_max'', ''score_std'',
      ''time_spent_sum'', ''time_spent_mean'', ''time_spent_std'', ''chapter_id_max'']"

text \<open>
  The frames the aggregation accepts: the four columns it reads are there, and neither
  \<open>score\<close> nor \<open>time_spent\<close> holds text.
\<close>

definition numeric_frame :: "frame \<Rightarrow> bool" where
  "numeric_frame df \<longleftrightarrow>
     ''student_id'' \<in> set (columns df) \<and> ''score'' \<in> set (columns df) \<and>
     ''time_spent'' \<in> set (columns df) \<and> ''chapter_id'' \<in> set (columns df) \<and>
     \<not> is_object (map score (rows df)) \<and> \<not> is_object (map time_spent (rows df))"

text \<open>
  What the program relies on from the loaded classifier: one label and one row of two
  class probabilities for each row of the matrix it is given.
\<close>

definition classifier_contract :: "classifier \<Rightarrow> bool" where
  "classifier_contract m \<longleftrightarrow>
     (\<forall>X. length (predict m X) = length X \<and> length (predict_proba m X) = length X \<and>
          (\<forall>r\<in>set (predict_proba m X). length r = 2))"

text \<open>
  The frames the difficulty analysis accepts: the four columns it reads are there, and
  neither \<open>score\<close> nor \<open>time_spent\<close> holds text.
\<close>

definition difficulty_frame :: "frame \<Rightarrow> bool" where
  "difficulty_frame df \<longleftrightarrow>
     ''course_id'' \<in> set (columns df) \<and> ''chapter_id'' \<in> set (columns df) \<and>
     ''score'' \<in> set (columns df) \<and> ''time_spent'' \<in> set (columns df) \<and>
     \<not> is_object (map score (rows df)) \<and> \<not> is_object (map time_spent (rows df))"

text \<open>The mean of the present values of a column in the group of a (course, chapter) pair.\<close>

definition group_mean :: "(event \<Rightarrow> cell) \<Rightarrow> string \<times> int \<Rightarrow> event list \<Rightarrow> real option" where
  "group_mean col k evs = reduce AggMean (present (map col (group_rows course_chapter k evs)))"

subsection \<open>Example inputs\<close>

definition mk_event :: "int \<Rightarrow> string \<Rightarrow> int \<Rightarrow> real \<Rightarrow> real \<Rightarrow> event" where
  "mk_event sid course chapter t sc =
     \<lparr>student_id = Some sid, course_id = Some course, chapter_id = Some chapter,
      time_spent = Num t, score = Num sc, completed = Some 1\<rparr>"

text \<open>
  The batch of the specification's end-to-end scenario: student 1 with scores 80, 85, 90
  and times 10, 12, 11, student 2 with one event (score 40, time 5), the row of student
  2 first.
\<close>

definition scenario_batch :: frame where
  "scenario_batch =
     \<lparr>columns = [''student_id'', ''course_id'', ''chapter_id'', ''time_spent'', ''score'',
                 ''completed''],
      rows = [mk_event 2 ''C102'' 1 5 40, mk_event 1 ''C101'' 1 10 80,
              mk_event 1 ''C101'' 2 12 85, mk_event 1 ''C101'' 3 11 90]\<rparr>"

text \<open>The feature table of the scenario batch.\<close>

definition scenario_table :: "(int, string, real) table" where
  "scenario_table =
     \<lparr>tcolumns = [''score_mean'', ''score_min'', ''score_max'', ''score_std'',
                 ''time_spent_sum'', ''time_spent_mean'', ''time_spent_std'',
                 ''chapter_id_max''],
      tindex = [1, 2],
      tvalues = [[85, 80, 90, 5, 33, 11, 1, 3], [40, 40, 40, 0, 5, 5, 0, 1]]\<rparr>"

text \<open>A batch with missing cells: student 3 has no value at all, student 4 some.\<close>

definition missing_batch :: frame where
  "missing_batch =
     \<lparr>columns = [''student_id'', ''course_id'', ''chapter_id'', ''time_spent'', ''score''],
      rows = [\<lparr>student_id = Some 4, course_id = Some ''C101'', chapter_id = Some 2,
               time_spent = Num 7, score = NaN, completed = None\<rparr>,
              \<lparr>student_id = Some 3, course_id = Some ''C101'', chapter_id = None,
               time_spent = NaN, score = NaN, completed = None\<rparr>,
              \<lparr>student_id = Some 4, course_id = Some ''C101'', chapter_id = Some 5,
               time_spent = NaN, score = Num 60, completed = None\<rparr>]\<rparr>"

text \<open>
  Example artifacts: a scaler with eight columns, and a classifier that looks at the sum
  of a scaled row.
\<close>

definition example_artifacts :: artifacts where
  "example_artifacts =
     \<lparr>model = \<lparr>predict = map (\<lambda>r. if 0 < sum_list r then 1 else 0),
                predict_proba = map (\<lambda>r. if 0 < sum_list r then [1 / 5, 4 / 5]
                                         else [3 / 4, 1 / 4])\<rparr>,
      loaded_scaler = \<lparr>scaler_mean = [50, 40, 60, 1, 10, 5, 1, 1],
                       scaler_scale = [10, 10, 10, 1, 5, 1, 1, 1]\<rparr>\<rparr>"



text \<open>The difficulty table of the scenario batch.\<close>

definition scenario_difficulty :: "difficulty_stat list" where
  "scenario_difficulty =
     [\<lparr>ds_course_id = ''C101'', ds_chapter_id = 1, ds_score = Some 80,
       ds_time_spent = Some 10, difficulty_score = Finite (185 / 3)\<rparr>,
      \<lparr>ds_course_id = ''C101'', ds_chapter_id = 2, ds_score = Some 85,
       ds_time_spent = Some 12, difficulty_score = Finite 65\<rparr>,
      \<lparr>ds_course_id = ''C101'', ds_chapter_id = 3, ds_score = Some 90,
       ds_time_spent = Some 11, difficulty_score = Finite (335 / 6)\<rparr>,
      \<lparr>ds_course_id = ''C102'', ds_chapter_id = 1, ds_score = Some 40,
       ds_time_spent = Some 5, difficulty_score = Finite (485 / 6)\<rparr>]"

text \<open>
  Three students in one chapter with scores 58.4, 93 and 64.2, and the same rows in
  reverse order.
\<close>

definition float_batch :: frame where
  "float_batch =
     \<lparr>columns = [''student_id'', ''course_id'', ''chapter_id'', ''time_spent'', ''score'',
                 ''completed''],
      rows = [mk_event 1 ''C101'' 1 10 (584 / 10), mk_event 2 ''C101'' 1 10 93,
              mk_event 3 ''C101'' 1 10 (642 / 10)]\<rparr>"

definition float_batch_reversed :: frame where
  "float_batch_reversed = float_batch\<lparr>rows := rev (rows float_batch)\<rparr>"


section \<open>Theorems\<close>

subsection \<open>The aggregation, characterised\<close>

lemmas eval_defs = preprocess_student_data_def groupby_agg_def inference_spec_def
  training_spec_def agg_labels_def group_keys_def group_rows_def present_def is_object_def
  column_cell_def opt_cell_def flatten_columns_def join_label_def strip_def isspace_def
  fillna_def mean_def List.map_filter_def train_models_X_def train_models_features_def
  rename_column_def drop_column_def scenario_batch_def mk_event_def

lemma opt_cell_not_object: "\<not> is_object (map (\<lambda>e. opt_cell (f e)) evs)"
  by (induction evs) (simp_all add: is_object_def opt_cell_def split: option.splits)

lemma column_cell_simps:
  "column_cell ''score'' = score"
  "column_cell ''time_spent'' = time_spent"
  "column_cell ''chapter_id'' = (\<lambda>e. opt_cell (chapter_id e))"
  "column_cell ''completed'' = (\<lambda>e. opt_cell (completed e))"
  by (simp_all add: column_cell_def fun_eq_iff)


lemma preprocess_numeric:
  "numeric_frame df \<Longrightarrow>
   preprocess_student_data df =
     Inr \<lparr>tcolumns = feature_names, tindex = group_keys student_id (rows df),
          tvalues = map (\<lambda>k. feature_vector (group_rows student_id k (rows df)))
                      (group_keys student_id (rows df))\<rparr>"
  by (simp add: numeric_frame_def preprocess_student_data_def groupby_agg_def inference_spec_def
      agg_labels_def column_cell_simps opt_cell_not_object flatten_columns_def fillna_def
      join_label_def strip_def isspace_def feature_names_def feature_vector_def fill0_def Let_def
      del: reduce.simps)

lemma preprocess_not_numeric:
  "\<not> numeric_frame df \<Longrightarrow> \<exists>e. preprocess_student_data df = Inl e"
  by (auto simp add: numeric_frame_def preprocess_student_data_def groupby_agg_def
      inference_spec_def column_cell_simps opt_cell_not_object split: list.splits)

lemma preprocess_Inr_iff:
  "preprocess_student_data df = Inr F \<longleftrightarrow>
     numeric_frame df \<and>
     F = \<lparr>tcolumns = feature_names, tindex = group_keys student_id (rows df),
          tvalues = map (\<lambda>k. feature_vector (group_rows student_id k (rows df)))
                      (group_keys student_id (rows df))\<rparr>"
  using preprocess_numeric [of df] preprocess_not_numeric [of df]
  by (cases "numeric_frame df") auto

lemma train_X_eq:
  "''completed'' \<in> set (columns df) \<Longrightarrow> train_models_X df = preprocess_student_data df"
  by (simp add: train_models_X_def train_models_features_def preprocess_student_data_def
      groupby_agg_def column_cell_simps opt_cell_not_object inference_spec_def training_spec_def
      agg_labels_def flatten_columns_def join_label_def strip_def isspace_def fillna_def
      rename_column_def drop_column_def del: reduce.simps split: list.splits)



lemma scenario_features:
  "preprocess_student_data scenario_batch =
     Inr \<lparr>tcolumns = [''score_mean'', ''score_min'', ''score_max'', ''score_std'',
                      ''time_spent_sum'', ''time_spent_mean'', ''time_spent_std'',
                      ''chapter_id_max''],
          tindex = [1, 2],
          tvalues = [[85, 80, 90, 5, 33, 11, 1, 3], [40, 40, 40, 0, 5, 5, 0, 1]]\<rparr>"
  by (simp add: eval_defs)

lemma set_group_keys: "set (group_keys key evs) = {k. \<exists>e\<in>set evs. key e = Some k}"
  by (fastforce simp add: group_keys_def List.map_filter_def image_iff)

lemma distinct_group_keys: "distinct (group_keys key evs)"
  by (simp add: group_keys_def)

lemma sorted_group_keys: "sorted_wrt (<) (group_keys key evs)"
  by (simp add: group_keys_def strict_sorted_iff)

lemma group_keys_cong: "set evs = set evs' \<Longrightarrow> group_keys key evs = group_keys key evs'"
proof -
  assume "set evs = set evs'"
  then have "set (List.map_filter key evs) = set (List.map_filter key evs')"
    by (simp add: List.map_filter_def)
  then show ?thesis
    unfolding group_keys_def sorted_list_of_set_sort_remdups [symmetric] by simp
qed

lemma present_comprehension: "present cs = [x. Num x \<leftarrow> cs]"
  by (induction cs) (simp_all add: present_def List.map_filter_def split: cell.splits)

lemma present_chapters:
  "present (map (\<lambda>e. opt_cell (chapter_id e)) g) = [real_of_int c. Some c \<leftarrow> map chapter_id g]"
  by (induction g) (simp_all add: present_def List.map_filter_def opt_cell_def split: option.splits)

lemma reduce_min: "reduce AggMin xs = (if xs = [] then None else Some (Min (set xs)))"
  using Min.set_eq_fold [of "hd xs" "tl xs"] by (cases xs) simp_all

lemma reduce_max: "reduce AggMax xs = (if xs = [] then None else Some (Max (set xs)))"
  using Max.set_eq_fold [of "hd xs" "tl xs"] by (cases xs) simp_all

lemma feature_vector_explicit:
  "feature_vector g =
     (let sc = [x. Num x \<leftarrow> map score g]; ts = [x. Num x \<leftarrow> map time_spent g];
          ch = [real_of_int c. Some c \<leftarrow> map chapter_id g]
      in [if sc = [] then 0 else sum_list sc / real (length sc),
          if sc = [] then 0 else Min (set sc),
          if sc = [] then 0 else Max (set sc),
          if length sc < 2 then 0
          else sqrt ((\<Sum>x\<leftarrow>sc. (x - sum_list sc / real (length sc))\<^sup>2) / (real (length sc) - 1)),
          sum_list ts,
          if ts = [] then 0 else sum_list ts / real (length ts),
          if length ts < 2 then 0
          else sqrt ((\<Sum>x\<leftarrow>ts. (x - sum_list ts / real (length ts))\<^sup>2) / (real (length ts) - 1)),
          if ch = [] then 0 else Max (set ch)])"
  unfolding feature_vector_def reduce_min reduce_max present_comprehension [symmetric] present_chapters [symmetric] Let_def
  by (simp add: fill0_def mean_def of_nat_diff not_less)

lemma mset_present: "mset cs = mset cs' \<Longrightarrow> mset (present cs) = mset (present cs')"
proof -
  assume h: "mset cs = mset cs'"
  have "mset (present cs) =
      image_mset (\<lambda>c. the (case c of Num x \<Rightarrow> Some x | _ \<Rightarrow> None))
        (filter_mset (\<lambda>c. (case c of Num x \<Rightarrow> Some x | _ \<Rightarrow> None) \<noteq> None) (mset cs))" for cs
    by (simp add: present_def List.map_filter_def comp_def)
  with h show ?thesis by simp
qed

lemma mset_group_rows:
  "mset evs = mset evs' \<Longrightarrow> mset (group_rows key k evs) = mset (group_rows key k evs')"
  by (simp add: group_rows_def)

lemma reduce_mset:
  assumes "mset xs = mset ys" and "f \<noteq> AggFirst"
  shows "reduce f xs = reduce f ys"
proof -
  have len: "length xs = length ys" using assms(1) by (rule mset_eq_length)
  have st: "set xs = set ys" using assms(1) by (rule mset_eq_setD)
  have sm: "sum_list (map h xs) = sum_list (map h ys)" for h :: "real \<Rightarrow> real"
    using assms(1) by (metis mset_map sum_mset_sum_list)
  have sm0: "sum_list xs = sum_list ys"
    using assms(1) by (metis sum_mset_sum_list)
  have mn: "mean xs = mean ys" by (simp add: mean_def len sm0)
  have nil: "xs = [] \<longleftrightarrow> ys = []" using len by auto
  show ?thesis
  proof (cases f)
    case AggMean then show ?thesis by (simp add: mn nil)
  next
    case AggMin then show ?thesis by (simp only: reduce_min st nil)
  next
    case AggMax then show ?thesis by (simp only: reduce_max st nil)
  next
    case AggStd then show ?thesis by (simp add: mn len sm)
  next
    case AggSum then show ?thesis by (simp add: sm0)
  next
    case AggFirst with assms(2) show ?thesis by simp
  qed
qed

lemma feature_vector_mset:
  assumes "mset g = mset g'"
  shows "feature_vector g = feature_vector g'"
proof -
  have p: "mset (present (map h g)) = mset (present (map h g'))" for h :: "event \<Rightarrow> cell"
    using assms by (intro mset_present) (metis mset_map)
  show ?thesis
    unfolding feature_vector_def
    using reduce_mset [OF p [of score]] reduce_mset [OF p [of time_spent]]
      reduce_mset [OF p [of "\<lambda>e. opt_cell (chapter_id e)"]]
    by (simp del: reduce.simps)
qed

lemma is_object_set: "set cs = set cs' \<Longrightarrow> is_object cs = is_object cs'"
  by (simp add: is_object_def list_ex_iff)

lemma numeric_frame_perm:
  assumes "columns df' = columns df" and "mset (rows df') = mset (rows df)"
  shows "numeric_frame df' = numeric_frame df"
proof -
  have "set (rows df') = set (rows df)" using assms(2) by (rule mset_eq_setD)
  then have "set (map h (rows df')) = set (map h (rows df))" for h :: "event \<Rightarrow> cell" by simp
  then show ?thesis
    using is_object_set [of "map score (rows df')" "map score (rows df)"]
      is_object_set [of "map time_spent (rows df')" "map time_spent (rows df)"]
    by (simp add: numeric_frame_def assms(1))
qed

lemma preprocess_perm:
  assumes "columns df' = columns df" and "mset (rows df') = mset (rows df)"
  shows "preprocess_student_data df' = preprocess_student_data df"
proof (cases "numeric_frame df")
  case True
  then have n': "numeric_frame df'" using numeric_frame_perm [OF assms] by simp
  have k: "group_keys student_id (rows df') = group_keys student_id (rows df)"
    using assms(2) by (intro group_keys_cong mset_eq_setD)
  have v: "feature_vector (group_rows student_id k (rows df')) =
           feature_vector (group_rows student_id k (rows df))" for k
    using assms(2) by (intro feature_vector_mset mset_group_rows)
  show ?thesis
    by (simp add: preprocess_numeric [OF True] preprocess_numeric [OF n'] k v)
next
  case False
  then have n': "\<not> numeric_frame df'" using numeric_frame_perm [OF assms] by simp
  show ?thesis
    using False n' assms(1)
    by (auto simp add: numeric_frame_def preprocess_student_data_def groupby_agg_def
      inference_spec_def column_cell_simps opt_cell_not_object split: list.splits)
qed

lemma results_loop_eq:
  "results_loop idx sids probs preds acc =
     (if sids \<noteq> [] \<and> (length probs < idx + length sids \<or> length preds < idx + length sids)
      then Inl IndexError
      else Inr (acc @ map (\<lambda>j. \<lparr>res_student_id = sids ! j,
                                 completion_probability = py_round2 (probs ! (idx + j)),
                                 predicted_completion = (preds ! (idx + j) \<noteq> 0),
                                 res_risk_level = risk_level (probs ! (idx + j))\<rparr>)
                          [0..<length sids]))"
proof (induction sids arbitrary: idx acc)
  case Nil
  then show ?case by simp
next
  case (Cons sid rest)
  show ?case
    by (simp add: Cons.IH map_upt_Suc del: upt_Suc) 
qed

lemma predict_body_Inr:
  assumes "predict_body a df = Inr rs"
  shows "\<exists>F X probs.
           preprocess_student_data df = Inr F \<and>
           transform (loaded_scaler a) (tvalues F) = Inr X \<and>
           second_column (predict_proba (model a) X) = Inr probs \<and>
           rs = map (\<lambda>i. \<lparr>res_student_id = tindex F ! i,
                          completion_probability = py_round2 (probs ! i),
                          predicted_completion = (predict (model a) X ! i \<noteq> 0),
                          res_risk_level = risk_level (probs ! i)\<rparr>)
                  [0..<length (tindex F)]"
  using assms
  by (auto simp add: predict_body_def results_loop_eq split: sum.splits if_splits)

lemma predict_completion_Inr:
  "predict_completion loaded df = Inr rs \<longleftrightarrow> (\<exists>a. loaded = Some a \<and> predict_body a df = Inr rs)"
  by (auto simp add: predict_completion_def split: option.splits sum.splits)

lemma predict_ids:
  assumes "predict_completion loaded df = Inr rs"
  shows "map res_student_id rs = group_keys student_id (rows df)"
proof -
  from assms obtain a where "predict_body a df = Inr rs"
    by (auto simp add: predict_completion_Inr)
  from predict_body_Inr [OF this] obtain F where
    F: "preprocess_student_data df = Inr F" and
    "map res_student_id rs = map (\<lambda>i. tindex F ! i) [0..<length (tindex F)]"
    by (auto simp add: comp_def)
  then have "map res_student_id rs = tindex F" by (simp add: map_nth)
  with F show ?thesis by (simp add: preprocess_Inr_iff)
qed

lemma transform_Inr:
  "X \<noteq> [] \<Longrightarrow> \<forall>r\<in>set X. length r = length (scaler_mean sc) \<Longrightarrow>
   \<exists>Z. transform sc X = Inr Z \<and> length Z = length X"
  by (auto simp add: transform_def list_ex_iff)

lemma length_feature_vector: "length (feature_vector g) = 8"
  by (simp add: feature_vector_def)

lemma predict_completion_total:
  assumes "numeric_frame df" and "\<exists>e\<in>set (rows df). student_id e \<noteq> None"
    and "length (scaler_mean (loaded_scaler a)) = 8" and "classifier_contract (model a)"
  shows "\<exists>rs. predict_completion (Some a) df = Inr rs"
proof -
  let ?ks = "group_keys student_id (rows df)"
  let ?V = "map (\<lambda>k. feature_vector (group_rows student_id k (rows df))) ?ks"
  have ks: "?ks \<noteq> []"
    using assms(2) set_group_keys [of student_id "rows df"] by fastforce
  have "\<exists>Z. transform (loaded_scaler a) ?V = Inr Z \<and> length Z = length ?V"
    using ks by (intro transform_Inr) (auto simp add: length_feature_vector assms(3))
  then obtain Z where Z: "transform (loaded_scaler a) ?V = Inr Z" "length Z = length ?ks"
    by auto
  have c: "length (predict (model a) Z) = length Z" "length (predict_proba (model a) Z) = length Z"
    "\<not> list_ex (\<lambda>r. length r < 2) (predict_proba (model a) Z)"
    using assms(4) by (auto simp add: classifier_contract_def list_ex_iff)
  show ?thesis
    by (simp add: predict_completion_def predict_body_def preprocess_numeric [OF assms(1)] Z
        second_column_def c results_loop_eq)
qed

lemma fit_Inr:
  assumes "fit X = Inr sc"
  shows "X \<noteq> [] \<and> (\<exists>n>0. (\<forall>r\<in>set X. length r = n) \<and>
           scaler_mean sc = map (\<lambda>j. mean (map (\<lambda>r. r ! j) X)) [0..<n] \<and>
           scaler_scale sc =
             map (\<lambda>j. handle_zeros_in_scale (population_std (map (\<lambda>r. r ! j) X))) [0..<n])"
proof (cases X)
  case Nil
  with assms show ?thesis by (simp add: fit_def)
next
  case (Cons r rs)
  with assms have r: "r \<noteq> []" and rect: "\<forall>r'\<in>set X. length r' = length r"
    and sc: "sc = \<lparr>scaler_mean = map mean (transpose X),
                   scaler_scale = map (\<lambda>c. handle_zeros_in_scale (population_std c))
                                    (transpose X)\<rparr>"
    by (auto simp add: fit_def list_ex_iff split: if_splits)
  have t: "transpose X = map (\<lambda>j. map (\<lambda>r. r ! j) X) [0..<length r]"
  proof -
    have a: "X = [] \<Longrightarrow> length r = 0" using Cons by simp
    have b: "\<And>i. i < length X \<Longrightarrow> length (X ! i) = length r" using rect by simp
    have c: "map (\<lambda>k. X ! k ! j) [0..<length X] = map (\<lambda>r. r ! j) X" for j
      by (rule nth_equalityI) simp_all
    from transpose_rectangle [where xs = X and n = "length r", OF a b] show ?thesis
      by (simp only: c)
  qed
  have ne: "X \<noteq> []" using Cons by simp
  have pos: "0 < length r" using r by simp
  have m: "scaler_mean sc = map (\<lambda>j. mean (map (\<lambda>r. r ! j) X)) [0..<length r]"
    by (simp add: sc t comp_def)
  have s: "scaler_scale sc =
      map (\<lambda>j. handle_zeros_in_scale (population_std (map (\<lambda>r. r ! j) X))) [0..<length r]"
    by (simp add: sc t comp_def)
  from ne pos rect m s show ?thesis by blast
qed

lemma population_std_nonneg: "0 \<le> population_std xs"
proof -
  have "0 \<le> (\<Sum>x\<leftarrow>xs. (x - mean xs)\<^sup>2)" by (rule sum_list_nonneg) auto
  then show ?thesis by (simp add: population_std_def)
qed

lemma handle_zeros_pos: "0 \<le> s \<Longrightarrow> 0 < handle_zeros_in_scale s"
  by (simp add: handle_zeros_in_scale_def)

lemma population_std_zero:
  assumes "population_std xs = 0" and "x \<in> set xs"
  shows "x = mean xs"
proof -
  have n: "0 < real (length xs)" using assms(2) by (cases xs) auto
  from assms(1) have "(\<Sum>y\<leftarrow>xs. (y - mean xs)\<^sup>2) / real (length xs) = 0"
    by (simp add: population_std_def)
  with n have "(\<Sum>y\<leftarrow>xs. (y - mean xs)\<^sup>2) = 0" by simp
  then have "\<forall>z\<in>set (map (\<lambda>y. (y - mean xs)\<^sup>2) xs). z = 0"
    by (subst (asm) sum_list_nonneg_eq_0_iff) auto
  with assms(2) show ?thesis by auto
qed

lemma transform_nth:
  assumes "transform sc Y = Inr Z" and "i < length Y" and "j < length (scaler_mean sc)"
    and "length (scaler_scale sc) = length (scaler_mean sc)"
  shows "Z ! i ! j = (Y ! i ! j - scaler_mean sc ! j) / scaler_scale sc ! j"
proof -
  from assms(1) have Z: "Z = map (\<lambda>r. map (\<lambda>(x, m, s). (x - m) / s)
                            (zip r (zip (scaler_mean sc) (scaler_scale sc)))) Y"
    and len: "\<forall>r\<in>set Y. length r = length (scaler_mean sc)"
    by (auto simp add: transform_def list_ex_iff split: if_splits)
  from len assms(2) have "length (Y ! i) = length (scaler_mean sc)" by simp
  then show ?thesis using assms(2,3,4) by (simp add: Z)
qed



lemma groupby_agg_perm:
  assumes "columns df' = columns df" and "mset (rows df') = mset (rows df)"
    and "\<forall>(c, fs)\<in>set spec. AggFirst \<notin> set fs"
  shows "groupby_agg kc key df' spec = groupby_agg kc key df spec"
proof -
  have st: "set (rows df') = set (rows df)" using assms(2) by (rule mset_eq_setD)
  have ob: "is_object (map (column_cell c) (rows df')) = is_object (map (column_cell c) (rows df))" for c
    by (rule is_object_set) (simp add: st)
  have k: "group_keys key (rows df') = group_keys key (rows df)"
    using st by (rule group_keys_cong)
  have v: "reduce f (present (map (column_cell c) (group_rows key k (rows df')))) =
           reduce f (present (map (column_cell c) (group_rows key k (rows df))))"
    if "f \<noteq> AggFirst" for f c k
  proof (rule reduce_mset [OF _ that], rule mset_present)
    from mset_group_rows [OF assms(2), of key k]
    show "mset (map (column_cell c) (group_rows key k (rows df'))) =
          mset (map (column_cell c) (group_rows key k (rows df)))"
      by (metis mset_map)
  qed
  have l: "\<forall>(c, f)\<in>set (agg_labels spec). f \<noteq> AggFirst"
    using assms(3) by (auto simp add: agg_labels_def)
  have vs: "map (\<lambda>(c, f). reduce f (present (map (column_cell c) (group_rows key k (rows df')))))
              (agg_labels spec) =
            map (\<lambda>(c, f). reduce f (present (map (column_cell c) (group_rows key k (rows df)))))
              (agg_labels spec)" for k
    using l v by (intro map_cong) auto
  show ?thesis
    unfolding groupby_agg_def assms(1) ob k vs ..
qed

lemma series_max_eq:
  "series_max vs =
     (if {t. Some t \<in> set vs} = {} then None else Some (Max {t. Some t \<in> set vs}))"
proof -
  have "set (List.map_filter (\<lambda>v. v) vs) = {t. Some t \<in> set vs}"
    by (force simp add: List.map_filter_def image_iff)
  then show ?thesis
    by (simp add: series_max_def reduce_max del: reduce.simps flip: set_empty)
qed

lemma difficulty_numeric:
  assumes "difficulty_frame df"
  shows "train_models_difficulty df =
     Inr (map (\<lambda>k. \<lparr>ds_course_id = fst k, ds_chapter_id = snd k,
                     ds_score = group_mean score k (rows df),
                     ds_time_spent = group_mean time_spent k (rows df),
                     difficulty_score =
                       fadd (fsub (Finite 100) (fv (group_mean score k (rows df))))
                         (fmul (fdiv (fv (group_mean time_spent k (rows df)))
                                  (fv (series_max (map (\<lambda>k. group_mean time_spent k (rows df))
                                         (group_keys course_chapter (rows df))))))
                            (Finite 50))\<rparr>)
            (group_keys course_chapter (rows df)))"
  using assms
  by (simp add: difficulty_frame_def train_models_difficulty_def groupby_agg_def
      difficulty_spec_def agg_labels_def column_cell_simps group_mean_def zip_map2
      zip_same_conv_map comp_def Let_def del: reduce.simps)

lemma difficulty_not_numeric:
  "\<not> difficulty_frame df \<Longrightarrow> \<exists>e. train_models_difficulty df = Inl e"
  by (auto simp add: difficulty_frame_def train_models_difficulty_def groupby_agg_def
      difficulty_spec_def column_cell_simps split: list.splits)

lemma group_mean_explicit:
  "group_mean col (c, h) evs =
     (let xs = [x. Num x \<leftarrow> map col [e\<leftarrow>evs. course_id e = Some c \<and> chapter_id e = Some h]]
      in if xs = [] then None else Some (sum_list xs / real (length xs)))"
proof -
  have "group_rows course_chapter (c, h) evs =
        [e\<leftarrow>evs. course_id e = Some c \<and> chapter_id e = Some h]"
    unfolding group_rows_def
    by (rule filter_cong) (auto simp add: course_chapter_def split: option.splits)
  then show ?thesis
    by (simp add: group_mean_def present_comprehension mean_def Let_def del: concat_map_singleton)
qed

lemma set_course_chapter_keys:
  "set (group_keys course_chapter evs) =
     {(c, h). \<exists>e\<in>set evs. course_id e = Some c \<and> chapter_id e = Some h}"
  by (auto simp add: set_group_keys course_chapter_def split: option.splits)

lemma scenario_difficulty_frame: "difficulty_frame scenario_batch"
  by (simp add: difficulty_frame_def scenario_batch_def is_object_def mk_event_def)

lemma scenario_difficulty_eval:
  "train_models_difficulty scenario_batch = Inr scenario_difficulty"
  by (simp add: eval_defs train_models_difficulty_def difficulty_spec_def course_chapter_def
      series_max_def fsub_def fv_def scenario_difficulty_def)

lemma difficulty_with_exact:
  "train_models_difficulty_with (reduce AggMean) (\<lambda>x. x) df = train_models_difficulty df"
proof (cases "difficulty_frame df")
  case True
  have f: "fround (\<lambda>x. x) v = v" for v by (simp add: fround_def split: fval.splits)
  from True show ?thesis
    by (simp add: difficulty_numeric)
      (simp add: difficulty_frame_def train_models_difficulty_with_def groupby_agg_def
        difficulty_spec_def agg_labels_def column_cell_simps group_mean_def f Let_def
        del: reduce.simps)
next
  case False
  then show ?thesis
    by (auto simp add: difficulty_frame_def train_models_difficulty_def
        train_models_difficulty_with_def groupby_agg_def difficulty_spec_def column_cell_simps
        split: list.splits)
qed

lemma difficulty_with_keys:
  "map_sum (\<lambda>e. e) (map (\<lambda>r. (ds_course_id r, ds_chapter_id r)))
     (train_models_difficulty_with mean_of rnd df) =
   map_sum (\<lambda>e. e) tindex
     (groupby_agg [''course_id'', ''chapter_id''] course_chapter df difficulty_spec)"
  by (simp add: train_models_difficulty_with_def Let_def comp_def split: sum.splits)

lemma difficulty_with_scores:
  assumes "difficulty_frame df"
  shows "map_sum (\<lambda>e. e) (map ds_score) (train_models_difficulty_with mean_of rnd df) =
         Inr (map (\<lambda>k. mean_of (map rnd (present (map score
                       (group_rows course_chapter k (rows df))))))
                (group_keys course_chapter (rows df)))"
  using assms
  by (simp add: difficulty_frame_def train_models_difficulty_with_def groupby_agg_def
      difficulty_spec_def agg_labels_def column_cell_simps Let_def comp_def)

lemma present_simps:
  "present [] = []"
  "present (Num x # cs) = x # present cs"
  "present (NaN # cs) = present cs"
  "present (Str s # cs) = present cs"
  by (simp_all add: present_def List.map_filter_def)

lemma float_batch_scores:
  "difficulty_frame float_batch"
  "difficulty_frame float_batch_reversed"
  "group_keys course_chapter (rows float_batch) = [(''C101'', 1)]"
  "group_keys course_chapter (rows float_batch_reversed) = [(''C101'', 1)]"
  "present (map score (group_rows course_chapter (''C101'', 1) (rows float_batch))) =
     [584 / 10, 93, 642 / 10]"
  "present (map score (group_rows course_chapter (''C101'', 1) (rows float_batch_reversed))) =
     [642 / 10, 93, 584 / 10]"
  by (simp_all add: difficulty_frame_def float_batch_reversed_def float_batch_def mk_event_def
      is_object_def group_keys_def group_rows_def course_chapter_def present_simps
      List.map_filter_def)

subsection \<open>Float rounding, evaluated\<close>

lemma ulp_search_down:
  assumes "2 ^ 52 * (u / 2 ^ k) \<le> a" and "a < 2 ^ 53 * (u / 2 ^ k)" and "0 < u" and "k \<le> n"
  shows "ulp_search n a u = u / 2 ^ k"
  using assms
proof (induction k arbitrary: n u)
  case 0
  then show ?case by (cases n) simp_all
next
  case (Suc k)
  then obtain m where n: "n = Suc m" and km: "k \<le> m" by (cases n) auto
  have "(2::real) ^ 53 * (u / 2 ^ Suc k) \<le> 2 ^ 52 * u"
    using Suc.prems(3) by (simp add: field_simps)
  with Suc.prems(2) have lt: "a < 2 ^ 52 * u" by linarith
  have "ulp_search m a (u / 2) = u / 2 / 2 ^ k"
    using Suc.prems km by (intro Suc.IH) simp_all
  with lt show ?case by (simp add: n)
qed

lemma fl64_down:
  assumes "2 ^ 52 / 2 ^ k \<le> \<bar>x\<bar>" and "\<bar>x\<bar> < 2 ^ 53 / 2 ^ k" and "k \<le> 2200"
  shows "fl64 x = of_int (round_half_even (x * 2 ^ k)) / 2 ^ k"
proof -
  have "(0::real) < 2 ^ 52 / 2 ^ k" by simp
  with assms(1) have "0 < \<bar>x\<bar>" by linarith
  then have x: "x \<noteq> 0" by simp
  have "ulp_search 2200 \<bar>x\<bar> 1 = 1 / 2 ^ k"
    using assms by (intro ulp_search_down) simp_all
  with x show ?thesis by (simp add: fl64_def Let_def)
qed

lemma fl64_step_1: "fl64 (292 / 5) = 8219069319951155 / 140737488355328"
  by (simp add: fl64_down [where k = 47] round_half_even_def)

lemma fl64_step_2: "fl64 (93) = 93"
  by (simp add: fl64_down [where k = 46] round_half_even_def)

lemma fl64_step_3: "fl64 (321 / 5) = 4517673376206029 / 70368744177664"
  by (simp add: fl64_down [where k = 46] round_half_even_def)

lemma fl64_step_4: "fl64 (8219069319951155 / 140737488355328) = 8219069319951155 / 140737488355328"
  by (simp add: fl64_down [where k = 47] round_half_even_def)

lemma fl64_step_5: "fl64 (21307655736996659 / 140737488355328) = 5326913934249165 / 35184372088832"
  by (simp add: fl64_down [where k = 45] round_half_even_def)

lemma fl64_step_6: "fl64 (13088586417045505 / 140737488355328) = 93"
  by (simp add: fl64_down [where k = 46] round_half_even_def)

lemma fl64_step_7: "fl64 (4517673376206029 / 70368744177664) = 4517673376206029 / 70368744177664"
  by (simp add: fl64_down [where k = 46] round_half_even_def)

lemma fl64_step_8: "fl64 (15171501244704359 / 70368744177664) = 1896437655588045 / 8796093022208"
  by (simp add: fl64_down [where k = 45] round_half_even_def)

lemma fl64_step_9: "fl64 (2258836688103015 / 35184372088832) = 2258836688103015 / 35184372088832"
  by (simp add: fl64_down [where k = 46] round_half_even_def)

lemma fl64_step_10: "fl64 (1 / 70368744177664) = 1 / 70368744177664"
  by (simp add: fl64_down [where k = 98] round_half_even_def)

lemma fl64_step_11: "fl64 (632145885196015 / 8796093022208) = 632145885196015 / 8796093022208"
  by (simp add: fl64_down [where k = 46] round_half_even_def)

lemma fl64_step_12: "fl64 (11061966584728781 / 70368744177664) = 2765491646182195 / 17592186044416"
  by (simp add: fl64_down [where k = 45] round_half_even_def)

lemma fl64_step_13: "fl64 (6544293208522751 / 70368744177664) = 6544293208522751 / 70368744177664"
  by (simp add: fl64_down [where k = 46] round_half_even_def)

lemma fl64_step_14: "fl64 (- (1 / 70368744177664)) = - (1 / 70368744177664)"
  by (simp add: fl64_down [where k = 98] round_half_even_def)

lemma fl64_step_15: "fl64 (8219069319951157 / 140737488355328) = 8219069319951157 / 140737488355328"
  by (simp add: fl64_down [where k = 47] round_half_even_def)

lemma fl64_step_16: "fl64 (30343002489408717 / 140737488355328) = 7585750622352179 / 35184372088832"
  by (simp add: fl64_down [where k = 45] round_half_even_def)

lemma fl64_step_17: "fl64 (2054767329987789 / 35184372088832) = 2054767329987789 / 35184372088832"
  by (simp add: fl64_down [where k = 47] round_half_even_def)

lemma fl64_step_18: "fl64 (- (1 / 140737488355328)) = - (1 / 140737488355328)"
  by (simp add: fl64_down [where k = 99] round_half_even_def)

lemma fl64_step_19: "fl64 (7585750622352179 / 105553116266496) = 5057167081568119 / 70368744177664"
  by (simp add: fl64_down [where k = 46] round_half_even_def)

lemma fl64_step_20: "fl64 (30343002489408715 / 140737488355328) = 7585750622352179 / 35184372088832"
  by (simp add: fl64_down [where k = 45] round_half_even_def)

lemma fl64_zero: "fl64 0 = 0"
  by (simp add: fl64_def)

lemmas fl64_steps = fl64_zero
  fl64_step_1 fl64_step_2 fl64_step_3 fl64_step_4 fl64_step_5 fl64_step_6 fl64_step_7
  fl64_step_8 fl64_step_9 fl64_step_10 fl64_step_11 fl64_step_12 fl64_step_13
  fl64_step_14 fl64_step_15 fl64_step_16 fl64_step_17 fl64_step_18 fl64_step_19
  fl64_step_20

lemma float_means:
  "kahan_mean fl64 (map fl64 [584 / 10, 93, 642 / 10]) =
     Some (632145885196015 / 8796093022208)"
  "kahan_mean fl64 (map fl64 [642 / 10, 93, 584 / 10]) =
     Some (5057167081568119 / 70368744177664)"
  "running_mean fl64 (map fl64 [584 / 10, 93, 642 / 10]) =
     Some (632145885196015 / 8796093022208)"
  "running_mean fl64 (map fl64 [642 / 10, 93, 584 / 10]) =
     Some (5057167081568119 / 70368744177664)"
  by (simp_all add: kahan_mean_def running_mean_def Let_def fl64_steps)

subsection \<open>Training and inference aggregate alike\<close>

text \<open>
  C1. On every training frame (one that has the target column \<open>completed\<close>) the
  feature matrix of the training pipeline, after the target column is dropped, is the
  table the inference pipeline computes from the same frame: the same outcome, the same
  index, the same values, and the same column labels in the same order. When it is
  computed, its columns are, in this order, score mean, min, max, std, time_spent sum,
  mean, std and chapter_id max.
\<close>

theorem training_features_equal_inference_features:
  assumes "''completed'' \<in> set (columns df)"
  shows "train_models_X df = preprocess_student_data df \<and>
         (\<forall>F. preprocess_student_data df = Inr F \<longrightarrow>
            tcolumns F = [''score_mean'', ''score_min'', ''score_max'', ''score_std'',
                          ''time_spent_sum'', ''time_spent_mean'', ''time_spent_std'',
                          ''chapter_id_max''])"
  using assms by (simp add: train_X_eq preprocess_Inr_iff feature_names_def)

theorem training_features_equal_inference_features_witness:
  "''completed'' \<in> set (columns scenario_batch) \<and>
   train_models_X scenario_batch = preprocess_student_data scenario_batch \<and>
   train_models_X scenario_batch =
     Inr \<lparr>tcolumns = [''score_mean'', ''score_min'', ''score_max'', ''score_std'',
                      ''time_spent_sum'', ''time_spent_mean'', ''time_spent_std'',
                      ''chapter_id_max''],
          tindex = [1, 2],
          tvalues = [[85, 80, 90, 5, 33, 11, 1, 3], [40, 40, 40, 0, 5, 5, 0, 1]]\<rparr>"
proof -
  have h: "''completed'' \<in> set (columns scenario_batch)"
    by (simp add: scenario_batch_def)
  from training_features_equal_inference_features [OF h] h scenario_features
  show ?thesis by simp
qed

subsection \<open>Standard deviations\<close>



subsection \<open>One vector and one result per student\<close>

text \<open>
  C7. Whenever the aggregation returns a table, its index holds each student id of the
  batch exactly once, it has one row of values per id, and the row of a student is the
  feature vector of all the events of that student in the batch. Whenever the endpoint
  returns results, their student ids are the student ids of the batch, each exactly once.
  And the endpoint does return results when the artifacts are loaded, the frame is
  numeric (the four columns present, no text in score and time_spent), at least one row
  has a student id, the scaler was fit on eight columns and the classifier gives one
  label and one pair of probabilities per row.
\<close>

theorem one_vector_and_one_result_per_student:
  "(\<forall>F. preprocess_student_data df = Inr F \<longrightarrow>
      distinct (tindex F) \<and>
      set (tindex F) = {s. \<exists>e\<in>set (rows df). student_id e = Some s} \<and>
      length (tvalues F) = length (tindex F) \<and>
      (\<forall>i<length (tindex F).
         tvalues F ! i = feature_vector (filter (\<lambda>e. student_id e = Some (tindex F ! i)) (rows df)))) \<and>
   (\<forall>rs. predict_completion loaded df = Inr rs \<longrightarrow>
      distinct (map res_student_id rs) \<and>
      set (map res_student_id rs) = {s. \<exists>e\<in>set (rows df). student_id e = Some s}) \<and>
   (numeric_frame df \<and> (\<exists>e\<in>set (rows df). student_id e \<noteq> None) \<and>
    length (scaler_mean (loaded_scaler a)) = 8 \<and> classifier_contract (model a) \<longrightarrow>
      (\<exists>rs. predict_completion (Some a) df = Inr rs))"
proof (intro conjI allI impI)
  fix F assume F: "preprocess_student_data df = Inr F"
  then have ix: "tindex F = group_keys student_id (rows df)"
    and vs: "tvalues F = map (\<lambda>k. feature_vector (group_rows student_id k (rows df))) (group_keys student_id (rows df))"
    by (simp_all add: preprocess_Inr_iff)
  show "distinct (tindex F)" by (simp add: ix distinct_group_keys)
  show "set (tindex F) = {s. \<exists>e\<in>set (rows df). student_id e = Some s}"
    by (simp add: ix set_group_keys)
  show "length (tvalues F) = length (tindex F)" by (simp add: ix vs)
  fix i assume "i < length (tindex F)"
  then show "tvalues F ! i = feature_vector (filter (\<lambda>e. student_id e = Some (tindex F ! i)) (rows df))"
    by (simp add: ix vs group_rows_def)
next
  fix rs assume "predict_completion loaded df = Inr rs"
  then have m: "map res_student_id rs = group_keys student_id (rows df)" by (rule predict_ids)
  show "distinct (map res_student_id rs)" by (simp add: m distinct_group_keys)
  show "set (map res_student_id rs) = {s. \<exists>e\<in>set (rows df). student_id e = Some s}"
    unfolding m by (rule set_group_keys)
next
  assume "numeric_frame df \<and> (\<exists>e\<in>set (rows df). student_id e \<noteq> None) \<and>
    length (scaler_mean (loaded_scaler a)) = 8 \<and> classifier_contract (model a)"
  then show "\<exists>rs. predict_completion (Some a) df = Inr rs"
    using predict_completion_total by blast
qed

theorem one_vector_and_one_result_per_student_witness:
  "numeric_frame scenario_batch \<and>
   student_id (mk_event 2 ''C102'' 1 5 40) \<noteq> None \<and>
   length (scaler_mean (loaded_scaler example_artifacts)) = 8 \<and>
   classifier_contract (model example_artifacts) \<and>
   preprocess_student_data scenario_batch = Inr scenario_table \<and>
   set (tindex scenario_table) = {s. \<exists>e\<in>set (rows scenario_batch). student_id e = Some s} \<and>
   (\<exists>rs. predict_completion (Some example_artifacts) scenario_batch = Inr rs \<and>
         distinct (map res_student_id rs) \<and>
         set (map res_student_id rs) =
           {s. \<exists>e\<in>set (rows scenario_batch). student_id e = Some s})"
proof -
  have n: "numeric_frame scenario_batch"
    by (simp add: numeric_frame_def scenario_batch_def is_object_def mk_event_def)
  have e: "\<exists>e\<in>set (rows scenario_batch). student_id e \<noteq> None"
    by (simp add: scenario_batch_def mk_event_def)
  have l: "length (scaler_mean (loaded_scaler example_artifacts)) = 8"
    by (simp add: example_artifacts_def)
  have c: "classifier_contract (model example_artifacts)"
    by (auto simp add: classifier_contract_def example_artifacts_def)
  have F: "preprocess_student_data scenario_batch = Inr scenario_table"
    by (simp add: scenario_features scenario_table_def)
  from one_vector_and_one_result_per_student
    [of scenario_batch "Some example_artifacts" example_artifacts] n e l c F
  show ?thesis by (auto simp add: mk_event_def)
qed

subsection \<open>Missing values\<close>

text \<open>
  C9. On a numeric frame the aggregation returns a table whatever cells are missing. In
  the row of a student every statistic is taken over the values that are present only
  (\<open>sc\<close>, \<open>ts\<close> and \<open>ch\<close> below: the scores, times and chapters of the student's
  events without the missing ones), and every field whose statistic is undefined is 0:
  mean, minimum and maximum of no value, and a standard deviation of fewer than two
  values. So a student whose scores are all missing gets 0 in the four score fields.
\<close>

theorem missing_values_skipped_then_filled:
  assumes "numeric_frame df"
  shows "\<exists>F. preprocess_student_data df = Inr F \<and>
           tindex F = group_keys student_id (rows df) \<and>
           length (tvalues F) = length (tindex F) \<and>
           (\<forall>i<length (tindex F).
              let g = group_rows student_id (tindex F ! i) (rows df);
                  sc = [x. Num x \<leftarrow> map score g]; ts = [x. Num x \<leftarrow> map time_spent g];
                  ch = [real_of_int c. Some c \<leftarrow> map chapter_id g]
              in tvalues F ! i =
                   [if sc = [] then 0 else sum_list sc / real (length sc),
                    if sc = [] then 0 else Min (set sc),
                    if sc = [] then 0 else Max (set sc),
                    if length sc < 2 then 0
                    else sqrt ((\<Sum>x\<leftarrow>sc. (x - sum_list sc / real (length sc))\<^sup>2) /
                               (real (length sc) - 1)),
                    sum_list ts,
                    if ts = [] then 0 else sum_list ts / real (length ts),
                    if length ts < 2 then 0
                    else sqrt ((\<Sum>x\<leftarrow>ts. (x - sum_list ts / real (length ts))\<^sup>2) /
                               (real (length ts) - 1)),
                    if ch = [] then 0 else Max (set ch)])"
  using feature_vector_explicit
  by (simp add: preprocess_numeric [OF assms] Let_def del: concat_map_singleton)

theorem missing_values_skipped_then_filled_witness:
  "numeric_frame missing_batch \<and>
   preprocess_student_data missing_batch =
     Inr \<lparr>tcolumns = feature_names, tindex = [3, 4],
          tvalues = [[0, 0, 0, 0, 0, 0, 0, 0], [60, 60, 60, 0, 7, 7, 0, 5]]\<rparr>"
proof -
  have n: "numeric_frame missing_batch"
    by (simp add: numeric_frame_def missing_batch_def is_object_def)
  have v: "preprocess_student_data missing_batch =
     Inr \<lparr>tcolumns = feature_names, tindex = [3, 4],
          tvalues = [[0, 0, 0, 0, 0, 0, 0, 0], [60, 60, 60, 0, 7, 7, 0, 5]]\<rparr>"
    by (simp add: eval_defs missing_batch_def feature_names_def)
  from missing_values_skipped_then_filled [OF n] n v show ?thesis by simp
qed

subsection \<open>Order of the results\<close>

text \<open>
  C10. Whenever the endpoint returns results, their student ids are strictly ascending;
  result \<open>i\<close> carries the \<open>i\<close>-th id of the index of the feature table, and the
  probability and the label the classifier gave for row \<open>i\<close> of the scaled feature
  matrix; and the endpoint returns the same results for every frame with the same header
  whose rows are a permutation of the rows.
\<close>

theorem results_ordered_by_student_id:
  assumes "predict_completion loaded df = Inr rs"
  shows "sorted_wrt (<) (map res_student_id rs) \<and>
         (\<exists>a F X probs.
            loaded = Some a \<and> preprocess_student_data df = Inr F \<and>
            transform (loaded_scaler a) (tvalues F) = Inr X \<and>
            second_column (predict_proba (model a) X) = Inr probs \<and>
            length rs = length (tindex F) \<and>
            (\<forall>i<length rs.
               rs ! i = \<lparr>res_student_id = tindex F ! i,
                         completion_probability = py_round2 (probs ! i),
                         predicted_completion = (predict (model a) X ! i \<noteq> 0),
                         res_risk_level = risk_level (probs ! i)\<rparr>)) \<and>
         (\<forall>df'. columns df' = columns df \<and> mset (rows df') = mset (rows df) \<longrightarrow>
            predict_completion loaded df' = Inr rs)"
proof (intro conjI allI impI)
  show "sorted_wrt (<) (map res_student_id rs)"
    by (simp only: predict_ids [OF assms] sorted_group_keys)
  from assms obtain a where a: "loaded = Some a" "predict_body a df = Inr rs"
    by (auto simp add: predict_completion_Inr)
  from predict_body_Inr [OF a(2)] a(1)
  show "\<exists>a F X probs.
            loaded = Some a \<and> preprocess_student_data df = Inr F \<and>
            transform (loaded_scaler a) (tvalues F) = Inr X \<and>
            second_column (predict_proba (model a) X) = Inr probs \<and>
            length rs = length (tindex F) \<and>
            (\<forall>i<length rs.
               rs ! i = \<lparr>res_student_id = tindex F ! i,
                         completion_probability = py_round2 (probs ! i),
                         predicted_completion = (predict (model a) X ! i \<noteq> 0),
                         res_risk_level = risk_level (probs ! i)\<rparr>)"
    by fastforce
  fix df' :: frame assume "columns df' = columns df \<and> mset (rows df') = mset (rows df)"
  then have "preprocess_student_data df' = preprocess_student_data df"
    using preprocess_perm by blast
  then have "predict_body b df' = predict_body b df" for b
    by (simp add: predict_body_def)
  then have "predict_completion loaded df' = predict_completion loaded df"
    by (simp add: predict_completion_def split: option.splits)
  with assms show "predict_completion loaded df' = Inr rs" by simp
qed

theorem results_ordered_by_student_id_witness:
  "predict_completion (Some example_artifacts) scenario_batch =
     Inr [\<lparr>res_student_id = 1, completion_probability = 4 / 5,
           predicted_completion = True, res_risk_level = ''Low''\<rparr>,
          \<lparr>res_student_id = 2, completion_probability = 1 / 4,
           predicted_completion = False, res_risk_level = ''High''\<rparr>] \<and>
   sorted_wrt (<) [1, 2 :: int] \<and>
   predict_completion (Some example_artifacts)
     (scenario_batch\<lparr>rows := rev (rows scenario_batch)\<rparr>) =
     Inr [\<lparr>res_student_id = 1, completion_probability = 4 / 5,
           predicted_completion = True, res_risk_level = ''Low''\<rparr>,
          \<lparr>res_student_id = 2, completion_probability = 1 / 4,
           predicted_completion = False, res_risk_level = ''High''\<rparr>]"
proof -
  have r: "predict_completion (Some example_artifacts) scenario_batch =
     Inr [\<lparr>res_student_id = 1, completion_probability = 4 / 5,
           predicted_completion = True, res_risk_level = ''Low''\<rparr>,
          \<lparr>res_student_id = 2, completion_probability = 1 / 4,
           predicted_completion = False, res_risk_level = ''High''\<rparr>]"
    by (simp add: predict_completion_def predict_body_def scenario_features transform_def
        example_artifacts_def second_column_def py_round2_def risk_level_def)
  have p: "columns (scenario_batch\<lparr>rows := rev (rows scenario_batch)\<rparr>) = columns scenario_batch \<and>
           mset (rows (scenario_batch\<lparr>rows := rev (rows scenario_batch)\<rparr>)) =
           mset (rows scenario_batch)"
    by simp
  from results_ordered_by_student_id [OF r] p r show ?thesis by simp
qed

subsection \<open>The scaler's transform\<close>

text \<open>
  C6, as the code has it. For a scaler fit on a training matrix, \<open>transform\<close> computes
  \<open>(x - mean) / scale\<close> column by column with the stored parameters: the mean of the
  training column, and as scale its population standard deviation, or 1 when that is 0.
  The scale is positive, so nothing is divided by zero. In a column whose training
  standard deviation is 0 the transformed value is \<open>x - mean\<close>; it is 0 for every
  training row, since each of them holds the mean there. The endpoint takes its scaled
  matrix from \<open>transform\<close> with the loaded parameters and never fits.
\<close>

theorem scaler_transform_uses_fitted_parameters:
  assumes "fit X = Inr sc" and "transform sc Y = Inr Z"
    and "i < length Y" and "j < length (scaler_mean sc)"
  shows "length (scaler_scale sc) = length (scaler_mean sc) \<and>
         scaler_mean sc ! j = mean (map (\<lambda>r. r ! j) X) \<and>
         0 < scaler_scale sc ! j \<and>
         Z ! i ! j = (Y ! i ! j - scaler_mean sc ! j) / scaler_scale sc ! j \<and>
         (population_std (map (\<lambda>r. r ! j) X) \<noteq> 0 \<longrightarrow>
            scaler_scale sc ! j = population_std (map (\<lambda>r. r ! j) X)) \<and>
         (population_std (map (\<lambda>r. r ! j) X) = 0 \<longrightarrow>
            scaler_scale sc ! j = 1 \<and> Z ! i ! j = Y ! i ! j - scaler_mean sc ! j \<and>
            (\<forall>r\<in>set X. r ! j - scaler_mean sc ! j = 0)) \<and>
         (\<forall>a df rs. predict_body a df = Inr rs \<longrightarrow>
            (\<exists>F Xs. preprocess_student_data df = Inr F \<and>
                    transform (loaded_scaler a) (tvalues F) = Inr Xs))"
proof -
  from fit_Inr [OF assms(1)] obtain n where n: "0 < n" "\<forall>r\<in>set X. length r = n"
    and m: "scaler_mean sc = map (\<lambda>j. mean (map (\<lambda>r. r ! j) X)) [0..<n]"
    and s: "scaler_scale sc =
             map (\<lambda>j. handle_zeros_in_scale (population_std (map (\<lambda>r. r ! j) X))) [0..<n]"
    by blast
  have l: "length (scaler_scale sc) = length (scaler_mean sc)" by (simp add: m s)
  have j: "j < n" using assms(4) by (simp add: m)
  have mj: "scaler_mean sc ! j = mean (map (\<lambda>r. r ! j) X)" using j by (simp add: m)
  have sj: "scaler_scale sc ! j = handle_zeros_in_scale (population_std (map (\<lambda>r. r ! j) X))"
    using j by (simp add: s)
  have pos: "0 < scaler_scale sc ! j"
    unfolding sj by (intro handle_zeros_pos population_std_nonneg)
  have z: "Z ! i ! j = (Y ! i ! j - scaler_mean sc ! j) / scaler_scale sc ! j"
    using transform_nth [OF assms(2,3,4) l] .
  have c: "\<forall>r\<in>set X. r ! j - scaler_mean sc ! j = 0"
    if "population_std (map (\<lambda>r. r ! j) X) = 0"
    using population_std_zero [OF that] by (auto simp add: mj)
  have e: "\<forall>a df rs. predict_body a df = Inr rs \<longrightarrow>
            (\<exists>F Xs. preprocess_student_data df = Inr F \<and>
                    transform (loaded_scaler a) (tvalues F) = Inr Xs)"
    using predict_body_Inr by blast
  show ?thesis
    using l mj pos z c e by (auto simp add: sj handle_zeros_in_scale_def)
qed

theorem scaler_transform_uses_fitted_parameters_witness:
  "fit [[1, 5], [3, 5]] = Inr \<lparr>scaler_mean = [2, 5], scaler_scale = [1, 1]\<rparr> \<and>
   transform \<lparr>scaler_mean = [2, 5], scaler_scale = [1, 1]\<rparr> [[4, 7]] = Inr [[2, 2]] \<and>
   population_std (map (\<lambda>r. r ! 1) [[1, 5], [3, 5 :: real]]) = 0 \<and>
   population_std (map (\<lambda>r. r ! 0) [[1, 5], [3, 5 :: real]]) = 1"
proof -
  have f: "fit [[1, 5], [3, 5]] = Inr \<lparr>scaler_mean = [2, 5], scaler_scale = [1, 1]\<rparr>"
    by (simp add: fit_def population_std_def mean_def handle_zeros_in_scale_def)
  have t: "transform \<lparr>scaler_mean = [2, 5], scaler_scale = [1, 1]\<rparr> [[4, 7]] = Inr [[2, 2]]"
    by (simp add: transform_def)
  from scaler_transform_uses_fitted_parameters [OF f t, of 0 1]
    scaler_transform_uses_fitted_parameters [OF f t, of 0 0] f t show ?thesis
    by (simp add: population_std_def mean_def)
qed

text \<open>
  The claim as stated fails: a scaler fit on a column that is constantly 5 transforms the
  input 7 to 2, not to 0.
\<close>

theorem zero_std_column_not_mapped_to_zero:
  "fit [[5], [5]] = Inr \<lparr>scaler_mean = [5], scaler_scale = [1]\<rparr> \<and>
   population_std [5, 5] = 0 \<and>
   transform \<lparr>scaler_mean = [5], scaler_scale = [1]\<rparr> [[7]] = Inr [[2]]"
  by (simp add: fit_def transform_def population_std_def mean_def handle_zeros_in_scale_def)

subsection \<open>Malformed batches\<close>




subsection \<open>The difficulty score\<close>

text \<open>
  C3. On a frame that has the columns \<open>course_id\<close>, \<open>chapter_id\<close>, \<open>score\<close>
  and \<open>time_spent\<close>, the last two without text, the difficulty analysis returns a
  table. Whenever it returns one, the table has exactly one record per (course, chapter)
  pair observed in the rows; the record's average score and average time are the means
  of the present scores and times of the rows of that pair; and its difficulty score is
  \<open>(100 - avg_score) + (avg_time / max_avg_time) * 50\<close> in float arithmetic, where
  \<open>max_avg_time\<close> is the largest average time of the records of the table. When the
  two averages are numbers and the maximum is not 0, that is the real number
  \<open>(100 - avg_score) + avg_time / max_avg_time * 50\<close>.
\<close>

theorem difficulty_score_formula:
  "(difficulty_frame df \<longrightarrow> (\<exists>recs. train_models_difficulty df = Inr recs)) \<and>
   (\<forall>recs. train_models_difficulty df = Inr recs \<longrightarrow>
      distinct (map (\<lambda>r. (ds_course_id r, ds_chapter_id r)) recs) \<and>
      set (map (\<lambda>r. (ds_course_id r, ds_chapter_id r)) recs) =
        {(c, h). \<exists>e\<in>set (rows df). course_id e = Some c \<and> chapter_id e = Some h} \<and>
      (\<forall>r\<in>set recs.
         let g = [e\<leftarrow>rows df. course_id e = Some (ds_course_id r) \<and>
                               chapter_id e = Some (ds_chapter_id r)];
             sc = [x. Num x \<leftarrow> map score g];
             ts = [x. Num x \<leftarrow> map time_spent g];
             T = {t. \<exists>r'\<in>set recs. ds_time_spent r' = Some t};
             max_avg_time = (if T = {} then None else Some (Max T))
         in ds_score r = (if sc = [] then None else Some (sum_list sc / real (length sc))) \<and>
            ds_time_spent r = (if ts = [] then None else Some (sum_list ts / real (length ts))) \<and>
            difficulty_score r =
              fadd (fsub (Finite 100) (fv (ds_score r)))
                (fmul (fdiv (fv (ds_time_spent r)) (fv max_avg_time)) (Finite 50)) \<and>
            (\<forall>s t. ds_score r = Some s \<and> ds_time_spent r = Some t \<and> Max T \<noteq> 0 \<longrightarrow>
               difficulty_score r = Finite ((100 - s) + t / Max T * 50))))"
proof (intro conjI allI impI ballI)
  assume "difficulty_frame df"
  then show "\<exists>recs. train_models_difficulty df = Inr recs"
    by (simp add: difficulty_numeric)
next
  fix recs assume R: "train_models_difficulty df = Inr recs"
  then have n: "difficulty_frame df" using difficulty_not_numeric [of df] by auto
  let ?ks = "group_keys course_chapter (rows df)"
  let ?M = "series_max (map (\<lambda>k. group_mean time_spent k (rows df)) ?ks)"
  let ?rec = "\<lambda>k. \<lparr>ds_course_id = fst k, ds_chapter_id = snd k,
                     ds_score = group_mean score k (rows df),
                     ds_time_spent = group_mean time_spent k (rows df),
                     difficulty_score =
                       fadd (fsub (Finite 100) (fv (group_mean score k (rows df))))
                         (fmul (fdiv (fv (group_mean time_spent k (rows df))) (fv ?M))
                            (Finite 50))\<rparr>"
  from R have recs: "recs = map ?rec ?ks" by (simp add: difficulty_numeric [OF n])
  have keys: "map (\<lambda>r. (ds_course_id r, ds_chapter_id r)) recs = ?ks"
    by (simp add: recs comp_def)
  show "distinct (map (\<lambda>r. (ds_course_id r, ds_chapter_id r)) recs)"
    unfolding keys by (rule distinct_group_keys)
  show "set (map (\<lambda>r. (ds_course_id r, ds_chapter_id r)) recs) =
        {(c, h). \<exists>e\<in>set (rows df). course_id e = Some c \<and> chapter_id e = Some h}"
    unfolding keys by (rule set_course_chapter_keys)
  have T: "{t. Some t \<in> set (map (\<lambda>k. group_mean time_spent k (rows df)) ?ks)} =
           {t. \<exists>r'\<in>set recs. ds_time_spent r' = Some t}"
    by (force simp add: recs image_iff)
  have M: "?M = (if {t. \<exists>r'\<in>set recs. ds_time_spent r' = Some t} = {} then None
                 else Some (Max {t. \<exists>r'\<in>set recs. ds_time_spent r' = Some t}))"
    by (simp only: series_max_eq T)
  fix r assume "r \<in> set recs"
  then obtain k where k: "r = ?rec k" by (auto simp add: recs)
  obtain c h where ch: "k = (c, h)" by (cases k)
  have nonempty: "{t. \<exists>r'\<in>set recs. ds_time_spent r' = Some t} \<noteq> {}"
    if "ds_time_spent r = Some t" for t
    using that \<open>r \<in> set recs\<close> by blast
  show "let g = [e\<leftarrow>rows df. course_id e = Some (ds_course_id r) \<and>
                               chapter_id e = Some (ds_chapter_id r)];
             sc = [x. Num x \<leftarrow> map score g];
             ts = [x. Num x \<leftarrow> map time_spent g];
             T = {t. \<exists>r'\<in>set recs. ds_time_spent r' = Some t};
             max_avg_time = (if T = {} then None else Some (Max T))
         in ds_score r = (if sc = [] then None else Some (sum_list sc / real (length sc))) \<and>
            ds_time_spent r = (if ts = [] then None else Some (sum_list ts / real (length ts))) \<and>
            difficulty_score r =
              fadd (fsub (Finite 100) (fv (ds_score r)))
                (fmul (fdiv (fv (ds_time_spent r)) (fv max_avg_time)) (Finite 50)) \<and>
            (\<forall>s t. ds_score r = Some s \<and> ds_time_spent r = Some t \<and> Max T \<noteq> 0 \<longrightarrow>
               difficulty_score r = Finite ((100 - s) + t / Max T * 50))"
    unfolding Let_def
  proof (intro conjI allI impI)
    show "ds_score r = (if [x. Num x \<leftarrow> map score [e\<leftarrow>rows df. course_id e = Some (ds_course_id r) \<and>
                               chapter_id e = Some (ds_chapter_id r)]] = [] then None
       else Some (sum_list [x. Num x \<leftarrow> map score [e\<leftarrow>rows df. course_id e = Some (ds_course_id r) \<and>
                               chapter_id e = Some (ds_chapter_id r)]] /
            real (length [x. Num x \<leftarrow> map score [e\<leftarrow>rows df. course_id e = Some (ds_course_id r) \<and>
                               chapter_id e = Some (ds_chapter_id r)]])))"
      using group_mean_explicit [of score c h "rows df"]
      by (simp add: k ch Let_def del: concat_map_singleton)
    show "ds_time_spent r = (if [x. Num x \<leftarrow> map time_spent [e\<leftarrow>rows df. course_id e = Some (ds_course_id r) \<and>
                               chapter_id e = Some (ds_chapter_id r)]] = [] then None
       else Some (sum_list [x. Num x \<leftarrow> map time_spent [e\<leftarrow>rows df. course_id e = Some (ds_course_id r) \<and>
                               chapter_id e = Some (ds_chapter_id r)]] /
            real (length [x. Num x \<leftarrow> map time_spent [e\<leftarrow>rows df. course_id e = Some (ds_course_id r) \<and>
                               chapter_id e = Some (ds_chapter_id r)]])))"
      using group_mean_explicit [of time_spent c h "rows df"]
      by (simp add: k ch Let_def del: concat_map_singleton)
    show "difficulty_score r =
      fadd (fsub (Finite 100) (fv (ds_score r)))
       (fmul (fdiv (fv (ds_time_spent r))
           (fv (if {t. \<exists>r'\<in>set recs. ds_time_spent r' = Some t} = {} then None
                else Some (Max {t. \<exists>r'\<in>set recs. ds_time_spent r' = Some t}))))
         (Finite 50))"
      unfolding M [symmetric] by (simp add: k)
    fix s t
    assume a: "ds_score r = Some s \<and> ds_time_spent r = Some t \<and>
               Max {t. \<exists>r'\<in>set recs. ds_time_spent r' = Some t} \<noteq> 0"
    then have "?M = Some (Max {t. \<exists>r'\<in>set recs. ds_time_spent r' = Some t})"
      using nonempty [of t] by (simp only: M) simp
    moreover have "difficulty_score r =
        fadd (fsub (Finite 100) (fv (ds_score r))) (fmul (fdiv (fv (ds_time_spent r)) (fv ?M)) (Finite 50))"
      by (simp add: k)
    ultimately show "difficulty_score r =
        Finite ((100 - s) + t / Max {t. \<exists>r'\<in>set recs. ds_time_spent r' = Some t} * 50)"
      using a by (simp add: fv_def fsub_def)
  qed
qed

theorem difficulty_score_formula_witness:
  "difficulty_frame scenario_batch \<and>
   train_models_difficulty scenario_batch = Inr scenario_difficulty \<and>
   distinct (map (\<lambda>r. (ds_course_id r, ds_chapter_id r)) scenario_difficulty) \<and>
   (100 - 80) + 10 / 12 * 50 = (185 / 3 :: real)"
proof -
  from difficulty_score_formula [of scenario_batch] scenario_difficulty_eval
  have "distinct (map (\<lambda>r. (ds_course_id r, ds_chapter_id r)) scenario_difficulty)"
    by blast
  with scenario_difficulty_frame scenario_difficulty_eval show ?thesis by simp
qed

subsection \<open>The difficulty table and the order of the rows\<close>

text \<open>
  C8, as the code has it. Two frames with the same header whose rows are permutations of
  each other give the same outcome of the difficulty analysis in exact arithmetic: the
  same records, in the same order, with the same average score, average time and
  difficulty score. Whatever the mean of a group and the rounding are, they give the
  same error or records for the same (course, chapter) pairs in the same order.
\<close>

theorem difficulty_groups_invariant_under_row_order:
  assumes "columns df' = columns df" and "mset (rows df') = mset (rows df)"
  shows "train_models_difficulty df' = train_models_difficulty df \<and>
         (\<forall>mean_of rnd.
            map_sum (\<lambda>e. e) (map (\<lambda>r. (ds_course_id r, ds_chapter_id r)))
              (train_models_difficulty_with mean_of rnd df') =
            map_sum (\<lambda>e. e) (map (\<lambda>r. (ds_course_id r, ds_chapter_id r)))
              (train_models_difficulty_with mean_of rnd df))"
proof -
  have g: "groupby_agg [''course_id'', ''chapter_id''] course_chapter df' difficulty_spec =
           groupby_agg [''course_id'', ''chapter_id''] course_chapter df difficulty_spec"
    using assms by (rule groupby_agg_perm) (simp add: difficulty_spec_def)
  then have "train_models_difficulty df' = train_models_difficulty df"
    by (simp add: train_models_difficulty_def)
  then show ?thesis by (simp add: difficulty_with_keys g)
qed

theorem difficulty_groups_invariant_under_row_order_witness:
  "mset (rows (scenario_batch\<lparr>rows := rev (rows scenario_batch)\<rparr>)) = mset (rows scenario_batch) \<and>
   train_models_difficulty (scenario_batch\<lparr>rows := rev (rows scenario_batch)\<rparr>) =
     Inr scenario_difficulty \<and>
   mset (rows float_batch_reversed) = mset (rows float_batch) \<and>
   map_sum (\<lambda>e. e) (map (\<lambda>r. (ds_course_id r, ds_chapter_id r)))
     (train_models_difficulty_with (kahan_mean fl64) fl64 float_batch_reversed) =
     Inr [(''C101'', 1)]"
proof -
  have c: "columns (scenario_batch\<lparr>rows := rev (rows scenario_batch)\<rparr>) = columns scenario_batch"
    and m: "mset (rows (scenario_batch\<lparr>rows := rev (rows scenario_batch)\<rparr>)) =
            mset (rows scenario_batch)"
    by simp_all
  have c': "columns float_batch_reversed = columns float_batch"
    and m': "mset (rows float_batch_reversed) = mset (rows float_batch)"
    by (simp_all add: float_batch_reversed_def)
  have k: "map_sum (\<lambda>e. e) (map (\<lambda>r. (ds_course_id r, ds_chapter_id r)))
     (train_models_difficulty_with (kahan_mean fl64) fl64 float_batch) = Inr [(''C101'', 1)]"
    using float_batch_scores(1)
    by (simp add: difficulty_with_keys groupby_agg_def difficulty_frame_def difficulty_spec_def
        column_cell_simps float_batch_scores(3))
  from difficulty_groups_invariant_under_row_order [OF c m]
    difficulty_groups_invariant_under_row_order [OF c' m'] m m' k scenario_difficulty_eval
  show ?thesis by simp
qed

text \<open>
  The claim as stated fails in the float arithmetic of the program: the three scores
  58.4, 93 and 64.2 of one chapter have the float64 mean 71.86666666666667 in this order
  of the rows and 71.86666666666666 in the reverse order, with the compensated sum and
  with the plain running sum alike, so the two tables differ in the average score.
\<close>

theorem float_means_depend_on_row_order:
  "columns float_batch_reversed = columns float_batch \<and>
   mset (rows float_batch_reversed) = mset (rows float_batch) \<and>
   map_sum (\<lambda>e. e) (map ds_score)
     (train_models_difficulty_with (kahan_mean fl64) fl64 float_batch) =
     Inr [Some (632145885196015 / 8796093022208)] \<and>
   map_sum (\<lambda>e. e) (map ds_score)
     (train_models_difficulty_with (kahan_mean fl64) fl64 float_batch_reversed) =
     Inr [Some (5057167081568119 / 70368744177664)] \<and>
   map_sum (\<lambda>e. e) (map ds_score)
     (train_models_difficulty_with (running_mean fl64) fl64 float_batch) =
     Inr [Some (632145885196015 / 8796093022208)] \<and>
   map_sum (\<lambda>e. e) (map ds_score)
     (train_models_difficulty_with (running_mean fl64) fl64 float_batch_reversed) =
     Inr [Some (5057167081568119 / 70368744177664)] \<and>
   train_models_difficulty_with (kahan_mean fl64) fl64 float_batch_reversed \<noteq>
     train_models_difficulty_with (kahan_mean fl64) fl64 float_batch \<and>
   train_models_difficulty_with (running_mean fl64) fl64 float_batch_reversed \<noteq>
     train_models_difficulty_with (running_mean fl64) fl64 float_batch"
proof -
  have c: "columns float_batch_reversed = columns float_batch"
    and m: "mset (rows float_batch_reversed) = mset (rows float_batch)"
    by (simp_all add: float_batch_reversed_def)
  have k: "map_sum (\<lambda>e. e) (map ds_score)
      (train_models_difficulty_with (kahan_mean fl64) fl64 float_batch) =
      Inr [Some (632145885196015 / 8796093022208)]"
    using float_means
    by (simp add: difficulty_with_scores [OF float_batch_scores(1)] float_batch_scores(3,5))
  have k': "map_sum (\<lambda>e. e) (map ds_score)
      (train_models_difficulty_with (kahan_mean fl64) fl64 float_batch_reversed) =
      Inr [Some (5057167081568119 / 70368744177664)]"
    using float_means
    by (simp add: difficulty_with_scores [OF float_batch_scores(2)] float_batch_scores(4,6))
  have r: "map_sum (\<lambda>e. e) (map ds_score)
      (train_models_difficulty_with (running_mean fl64) fl64 float_batch) =
      Inr [Some (632145885196015 / 8796093022208)]"
    using float_means
    by (simp add: difficulty_with_scores [OF float_batch_scores(1)] float_batch_scores(3,5))
  have r': "map_sum (\<lambda>e. e) (map ds_score)
      (train_models_difficulty_with (running_mean fl64) fl64 float_batch_reversed) =
      Inr [Some (5057167081568119 / 70368744177664)]"
    using float_means
    by (simp add: difficulty_with_scores [OF float_batch_scores(2)] float_batch_scores(4,6))
  have d: "(632145885196015 / 8796093022208 :: real) \<noteq> 5057167081568119 / 70368744177664"
    by simp
  have nk: "train_models_difficulty_with (kahan_mean fl64) fl64 float_batch_reversed \<noteq>
     train_models_difficulty_with (kahan_mean fl64) fl64 float_batch"
  proof
    assume "train_models_difficulty_with (kahan_mean fl64) fl64 float_batch_reversed =
      train_models_difficulty_with (kahan_mean fl64) fl64 float_batch"
    with k k' have "Some (5057167081568119 / 70368744177664 :: real) =
      Some (632145885196015 / 8796093022208)" by simp
    with d show False by simp
  qed
  have nr: "train_models_difficulty_with (running_mean fl64) fl64 float_batch_reversed \<noteq>
     train_models_difficulty_with (running_mean fl64) fl64 float_batch"
  proof
    assume "train_models_difficulty_with (running_mean fl64) fl64 float_batch_reversed =
      train_models_difficulty_with (running_mean fl64) fl64 float_batch"
    with r r' have "Some (5057167081568119 / 70368744177664 :: real) =
      Some (632145885196015 / 8796093022208)" by simp
    with d show False by simp
  qed
  from c m k k' r r' nk nr show ?thesis by blast
qed

subsection \<open>Risk tiers\<close>

text \<open>
  C4. For every probability the risk tier is High exactly when \<open>p < 0.30\<close>, Medium
  exactly when \<open>0.30 \<le> p < 0.70\<close> and Low exactly when \<open>p \<ge> 0.70\<close>; in
  particular 0.30 is Medium and 0.70 is Low. (It holds for every real number, so also
  on the interval from 0 to 1.)
\<close>

theorem risk_level_tiers:
  "(risk_level p = ''High'' \<longleftrightarrow> p < 0.3) \<and>
   (risk_level p = ''Medium'' \<longleftrightarrow> 0.3 \<le> p \<and> p < 0.7) \<and>
   (risk_level p = ''Low'' \<longleftrightarrow> 0.7 \<le> p) \<and>
   risk_level 0.3 = ''Medium'' \<and> risk_level 0.7 = ''Low''"
  by (simp add: risk_level_def)

end
